theory Spec2Isabelle
  imports Main "HOL-Library.Word" "HOL-Library.AList"
begin

section \<open>Go values shared by the packages\<close>

text \<open>
  Go's \<open>int\<close> and \<open>uint64\<close> are 64-bit on the platforms the sources build for
  (amd64, arm64): both are \<open>64 word\<close>, read with \<open>sint\<close> where the Go type is signed.
  Go strings are byte sequences: \<open>string\<close>.
\<close>

type_synonym go_int = "64 word"
type_synonym uint64 = "64 word"

text \<open>
  \<open>machine.VMFile\<close> is declared outside the sources at hand. The code reads it in two
  ways: the field \<open>Path\<close> and the method \<open>GetPath()\<close>. A file value carries both: \<open>Path\<close>
  is the field, \<open>GetPath\<close> is what the method returns for this file.
\<close>

record VMFile =
  Path :: string
  GetPath :: string

subsection \<open>strconv.Itoa\<close>

definition digit_char :: "nat \<Rightarrow> char" where
  "digit_char d = ''0123456789'' ! d"

function digits :: "nat \<Rightarrow> string" where
  "digits n = (if n < 10 then [digit_char n] else digits (n div 10) @ [digit_char (n mod 10)])"
  by pat_completeness auto
termination
  by (relation "measure id") auto

declare digits.simps [simp del]

text \<open>\<open>strconv.Itoa\<close> and \<open>fmt.Sprintf("%d", _)\<close> on an \<open>int\<close>: decimal, \<open>-\<close> first when negative.\<close>

definition Itoa :: "go_int \<Rightarrow> string" where
  "Itoa i = (if sint i < 0 then CHR ''-'' # digits (nat (- sint i)) else digits (nat (sint i)))"

section \<open>pkg/machine/qemu/command.go: the device descriptors\<close>

record FirmwareConfigDevice =
  fw_Name :: string
  fw_IgnitionFile :: VMFile
  fw_ConfigString :: string

definition FirmwareConfigDevice_ToCmdline :: "FirmwareConfigDevice \<Rightarrow> string list" where
  "FirmwareConfigDevice_ToCmdline f =
    (let args = [''-fw_cfg''];
         vars = '''';
         vars = (if fw_Name f \<noteq> '''' then vars @ ''name='' @ fw_Name f else vars);
         ignPath = GetPath (fw_IgnitionFile f);
         vars = (if ignPath \<noteq> ''''
                 then (if length vars > 0 then vars @ '','' else vars) @ ''file='' @ ignPath
                 else vars);
         vars = (if fw_ConfigString f \<noteq> ''''
                 then (if length vars > 0 then vars @ '','' else vars) @ ''string='' @ fw_ConfigString f
                 else vars)
     in args @ [vars])"

text \<open>
  The type \<open>Monitor\<close> is declared outside the sources at hand; \<open>QmpMonitor.ToCmdline\<close>
  reads its fields \<open>Network\<close> and \<open>Address\<close> (a \<open>VMFile\<close>).
\<close>

record Monitor =
  mon_Address :: VMFile
  mon_Network :: string

record QmpMonitor =
  qmp_Monitor :: Monitor
  qmp_Server :: bool
  qmp_Wait :: bool

definition QmpMonitor_GetServerStatus :: "QmpMonitor \<Rightarrow> string" where
  "QmpMonitor_GetServerStatus q = (if qmp_Server q then ''on'' else ''off'')"

definition QmpMonitor_GetWaitStatus :: "QmpMonitor \<Rightarrow> string" where
  "QmpMonitor_GetWaitStatus q = (if qmp_Wait q then ''on'' else ''off'')"

definition QmpMonitor_ToCmdline :: "QmpMonitor \<Rightarrow> string list" where
  "QmpMonitor_ToCmdline q =
    (let args = [''-qmp''];
         vars = '''';
         vars = (if mon_Network (qmp_Monitor q) \<noteq> '''' \<and> GetPath (mon_Address (qmp_Monitor q)) \<noteq> ''''
                 then vars @ mon_Network (qmp_Monitor q) @ '':'' @ GetPath (mon_Address (qmp_Monitor q))
                 else vars);
         vars = (if vars \<noteq> '''' then vars @ '','' else vars);
         vars = vars @ ''server='' @ QmpMonitor_GetServerStatus q;
         vars = (if vars \<noteq> '''' then vars @ '','' else vars);
         vars = vars @ ''wait='' @ QmpMonitor_GetWaitStatus q
     in args @ [vars])"

record Socket =
  sock_ID :: string
  sock_FileDescriptor :: go_int

definition Socket_ToCmdline :: "Socket \<Rightarrow> string" where
  "Socket_ToCmdline s =
    (let vars = ''socket'';
         vars = vars @ '',id=vlan'';
         vars = (if 0 \<le> sint (sock_FileDescriptor s)
                 then vars @ '',fd='' @ Itoa (sock_FileDescriptor s) else vars)
     in vars)"

record VirtioNet =
  vn_NetDevice :: string
  vn_MacAddress :: string

definition VirtioNet_ToCmdline :: "VirtioNet \<Rightarrow> string" where
  "VirtioNet_ToCmdline v =
    (let vars = ''virtio-net-pci'';
         vars = (if vn_NetDevice v \<noteq> '''' then vars @ '',netdev='' @ vn_NetDevice v else vars);
         vars = (if vn_MacAddress v \<noteq> '''' then vars @ '',mac='' @ vn_MacAddress v else vars)
     in vars)"

record Network =
  net_Socket :: Socket
  net_VirtioNet :: VirtioNet

definition Network_ToCmdline :: "Network \<Rightarrow> string list" where
  "Network_ToCmdline n =
    [''-netdev'', Socket_ToCmdline (net_Socket n), ''-device'', VirtioNet_ToCmdline (net_VirtioNet n)]"

record CharDev =
  cd_SocketPath :: VMFile
  cd_Server :: bool
  cd_Wait :: bool
  cd_ID :: string

definition CharDev_GetServerStatus :: "CharDev \<Rightarrow> string" where
  "CharDev_GetServerStatus c = (if cd_Server c then ''on'' else ''off'')"

definition CharDev_GetWaitStatus :: "CharDev \<Rightarrow> string" where
  "CharDev_GetWaitStatus c = (if cd_Wait c then ''on'' else ''off'')"

definition CharDev_ToCmdline :: "CharDev \<Rightarrow> string list" where
  "CharDev_ToCmdline c =
    (let vars = '''';
         vars = (if GetPath (cd_SocketPath c) \<noteq> ''''
                 then vars @ ''socket,path='' @ GetPath (cd_SocketPath c) else vars);
         vars = (if vars \<noteq> '''' then vars @ '','' else vars);
         vars = vars @ ''server='' @ ''on'' @ '',wait='' @ CharDev_GetWaitStatus c;
         vars = (if vars \<noteq> '''' then vars @ '','' else vars)
     in [''-chardev'', vars @ (''id=a'' @ ''podman-machine-default'' @ ''_ready'')])"

record VirtSerialPort =
  vsp_Name :: string
  vsp_CharDev :: string

definition VirtSerialPort_ToCmdline :: "VirtSerialPort \<Rightarrow> string list" where
  "VirtSerialPort_ToCmdline v =
    (let vars = ''virtserialport'';
         vars = (if vsp_CharDev v \<noteq> '''' then vars @ '',chardev='' @ vsp_CharDev v else vars);
         vars = (if vsp_Name v \<noteq> '''' then vars @ '',name='' @ vsp_Name v else vars)
     in [''-device'', vars])"

record SerialPort =
  sp_PidFile :: VMFile
  sp_CharDev :: CharDev
  sp_VirtSerialPort :: VirtSerialPort

definition SerialPort_ToCmdline :: "SerialPort \<Rightarrow> string list" where
  "SerialPort_ToCmdline s =
    (let args = [''-device'', ''virtio-serial''];
         args = args @ CharDev_ToCmdline (sp_CharDev s);
         args = args @ VirtSerialPort_ToCmdline (sp_VirtSerialPort s);
         args = args @ [''-pidfile'', GetPath (sp_PidFile s)]
     in args)"

record Virtfs =
  vfs_Path :: VMFile
  vfs_MountTag :: string
  vfs_SecurityModel :: string
  vfs_ReadOnly :: bool

definition Virtfs_ToCmdline :: "Virtfs \<Rightarrow> string list" where
  "Virtfs_ToCmdline v =
    (let vars = ''local'';
         vars = (if GetPath (vfs_Path v) \<noteq> '''' then vars @ '',path='' @ GetPath (vfs_Path v) else vars);
         vars = (if vfs_MountTag v \<noteq> '''' then vars @ '',mount_tag='' @ vfs_MountTag v else vars);
         vars = (if vfs_SecurityModel v \<noteq> ''''
                 then vars @ '',security_model='' @ vfs_SecurityModel v else vars);
         vars = (if vfs_ReadOnly v then vars @ '',readonly'' else vars)
     in [''-virtfs'', vars])"

record QemuCmd =
  q_Memory :: go_int
  q_CPUs :: go_int
  q_CPU :: string
  q_Bios :: string
  q_BootableImage :: string
  q_Display :: bool
  q_Accelerator :: string
  q_Machine :: string
  q_Mounts :: "Virtfs list"
  q_FirmwareConfigs :: "FirmwareConfigDevice list"
  q_QmpMonitor :: QmpMonitor
  q_Network :: Network
  q_SerialPort :: SerialPort

text \<open>
  \<open>QemuCmd.ToCmdline\<close>: \<open>args\<close> grows by one \<open>append\<close> after the other; the two \<open>range\<close>
  loops are folds that append each element's arguments to what is there.
\<close>

definition QemuCmd_ToCmdline :: "QemuCmd \<Rightarrow> string list" where
  "QemuCmd_ToCmdline q =
    (let args = [];
         args = args @ [''-m'', Itoa (q_Memory q)];
         args = args @ [''-smp'', Itoa (q_CPUs q)];
         args = foldl (\<lambda>args fwCfgDev. args @ FirmwareConfigDevice_ToCmdline fwCfgDev)
                  args (q_FirmwareConfigs q);
         args = args @ QmpMonitor_ToCmdline (q_QmpMonitor q);
         args = args @ Network_ToCmdline (q_Network q);
         args = args @ SerialPort_ToCmdline (q_SerialPort q);
         args = foldl (\<lambda>args mount. args @ Virtfs_ToCmdline mount) args (q_Mounts q);
         args = (if q_Display q then args @ [''-display'', ''true'']
                 else args @ [''-display'', ''none'']);
         args = args @ [''-accel'', q_Accelerator q];
         args = args @ [''-cpu'', q_CPU q];
         args = args @ [''-drive'', ''if=virtio,file='' @ q_BootableImage q];
         args = (if q_Bios q \<noteq> '''' then args @ [''-bios'', q_Bios q] else args);
         args = args @ [''-M'', q_Machine q]
     in args)"

text \<open>
  The wording of the specification for a fragment: its sub-fields, joined with single
  commas, no comma before the first or after the last.
\<close>

fun comma_join :: "string list \<Rightarrow> string" where
  "comma_join [] = ''''"
| "comma_join [x] = x"
| "comma_join (x # y # ys) = x @ '','' @ comma_join (y # ys)"

text \<open>A sub-field \<open>key=value\<close> that is present only when its value is not empty.\<close>

definition opt_field :: "string \<Rightarrow> string \<Rightarrow> string list" where
  "opt_field key v = (if v = '''' then [] else [key @ v])"

text \<open>
  The sub-fields each descriptor emits, read off its \<open>ToCmdline\<close>: which of them are
  optional, and on what condition.
\<close>

definition FirmwareConfigDevice_fields :: "FirmwareConfigDevice \<Rightarrow> string list" where
  "FirmwareConfigDevice_fields f =
     opt_field ''name='' (fw_Name f) @
     opt_field ''file='' (GetPath (fw_IgnitionFile f)) @
     opt_field ''string='' (fw_ConfigString f)"

definition QmpMonitor_fields :: "QmpMonitor \<Rightarrow> string list" where
  "QmpMonitor_fields q =
     (if mon_Network (qmp_Monitor q) \<noteq> '''' \<and> GetPath (mon_Address (qmp_Monitor q)) \<noteq> ''''
      then [mon_Network (qmp_Monitor q) @ '':'' @ GetPath (mon_Address (qmp_Monitor q))] else []) @
     [''server='' @ (if qmp_Server q then ''on'' else ''off''),
      ''wait='' @ (if qmp_Wait q then ''on'' else ''off'')]"

definition Socket_fields :: "Socket \<Rightarrow> string list" where
  "Socket_fields s =
     [''socket'', ''id=vlan''] @
     (if 0 \<le> sint (sock_FileDescriptor s) then [''fd='' @ Itoa (sock_FileDescriptor s)] else [])"

definition Virtfs_fields :: "Virtfs \<Rightarrow> string list" where
  "Virtfs_fields v =
     [''local''] @
     opt_field ''path='' (GetPath (vfs_Path v)) @
     opt_field ''mount_tag='' (vfs_MountTag v) @
     opt_field ''security_model='' (vfs_SecurityModel v) @
     (if vfs_ReadOnly v then [''readonly''] else [])"

text \<open>Sample descriptors, used where a statement is run on a concrete input.\<close>

definition sample_fw :: FirmwareConfigDevice where
  "sample_fw = \<lparr>fw_Name = ''opt/com.coreos/config'',
     fw_IgnitionFile = \<lparr>Path = ''/ign'', GetPath = ''/ign''\<rparr>, fw_ConfigString = ''''\<rparr>"

definition sample_qmp :: QmpMonitor where
  "sample_qmp = \<lparr>qmp_Monitor = \<lparr>mon_Address = \<lparr>Path = ''/qmp.sock'', GetPath = ''/qmp.sock''\<rparr>,
     mon_Network = ''unix''\<rparr>, qmp_Server = True, qmp_Wait = False\<rparr>"

definition sample_chardev :: CharDev where
  "sample_chardev = \<lparr>cd_SocketPath = \<lparr>Path = ''/r.sock'', GetPath = ''/r.sock''\<rparr>,
     cd_Server = False, cd_Wait = False, cd_ID = ''box_ready''\<rparr>"

definition sample_virtfs :: Virtfs where
  "sample_virtfs = \<lparr>vfs_Path = \<lparr>Path = ''/home'', GetPath = ''/home''\<rparr>, vfs_MountTag = ''vol0'',
     vfs_SecurityModel = '''', vfs_ReadOnly = False\<rparr>"

definition sample_cmd :: QemuCmd where
  "sample_cmd = \<lparr>q_Memory = 2048, q_CPUs = 2, q_CPU = ''host'', q_Bios = ''QEMU_EFI.fd'',
     q_BootableImage = ''/img'', q_Display = False, q_Accelerator = ''kvm'',
     q_Machine = ''virt,gic-version=max'', q_Mounts = [sample_virtfs],
     q_FirmwareConfigs = [sample_fw], q_QmpMonitor = sample_qmp,
     q_Network = \<lparr>net_Socket = \<lparr>sock_ID = ''net0'', sock_FileDescriptor = 3\<rparr>,
       net_VirtioNet = \<lparr>vn_NetDevice = ''vlan'', vn_MacAddress = ''5a:94:ef:e4:0c:ee''\<rparr>\<rparr>,
     q_SerialPort = \<lparr>sp_PidFile = \<lparr>Path = ''/pid'', GetPath = ''/pid''\<rparr>,
       sp_CharDev = sample_chardev,
       sp_VirtSerialPort = \<lparr>vsp_Name = ''org.fedoraproject.port.0'',
         vsp_CharDev = ''apodman-machine-default_ready''\<rparr>\<rparr>\<rparr>"

section \<open>Errors\<close>

text \<open>
  A Go \<open>error\<close> value that is not \<open>nil\<close>. The sentinel values of package \<open>machine\<close> and
  \<open>os\<close> are constructors; \<open>errors.New\<close> keeps its message; \<open>fmt.Errorf\<close> keeps its format
  and its arguments (the text is the format filled in); \<open>External\<close> is an error handed up
  by a collaborator outside the sources (the operating system, the hypervisor helper).
  A Go \<open>error\<close> that may be \<open>nil\<close> is a \<open>go_error option\<close>.
\<close>

datatype go_error =
    ErrVMAlreadyRunning
  | ErrWrongState
  | ErrNotExist
  | ErrorsNew string
  | Errorf string "string list"
  | External string

section \<open>Go maps\<close>

text \<open>
  A Go map with string keys: \<open>None\<close> is the \<open>nil\<close> map, \<open>Some al\<close> an allocated map holding
  the entries of the association list \<open>al\<close> (possibly none). Reading and \<open>delete\<close> work on
  the \<open>nil\<close> map as on an empty one. The order in which \<open>range\<close> visits the keys is not
  specified by Go: a loop that takes the first key and breaks is given a function
  \<open>range_first\<close> that names the key visited first among those present.
\<close>

type_synonym 'v go_map = "(string \<times> 'v) list option"

definition map_keys :: "'v go_map \<Rightarrow> string list" where
  "map_keys m = (case m of None \<Rightarrow> [] | Some al \<Rightarrow> map fst al)"

definition map_lookup :: "'v go_map \<Rightarrow> string \<Rightarrow> 'v option" where
  "map_lookup m k = (case m of None \<Rightarrow> None | Some al \<Rightarrow> map_of al k)"

definition map_delete :: "string \<Rightarrow> 'v go_map \<Rightarrow> 'v go_map" where
  "map_delete k m = (case m of None \<Rightarrow> None | Some al \<Rightarrow> Some (AList.delete k al))"

definition range_first_ok :: "(string list \<Rightarrow> string) \<Rightarrow> bool" where
  "range_first_ok pick = (\<forall>ks. ks \<noteq> [] \<longrightarrow> pick ks \<in> set ks)"

section \<open>The connection registry\<close>

text \<open>
  \<open>config.Destination\<close> belongs to the configuration package outside the sources; the code
  sets and reads these three fields.
\<close>

record Destination =
  URI :: string
  Identity :: string
  IsMachine :: bool

text \<open>
  A default is valid when it is unset or names an entry of the mapping; it is settled when
  it names an entry whenever there is one, and is unset otherwise.
\<close>

definition default_valid :: "string \<Rightarrow> 'v go_map \<Rightarrow> bool" where
  "default_valid d m = (d = '''' \<or> d \<in> set (map_keys m))"

definition default_settled :: "string \<Rightarrow> 'v go_map \<Rightarrow> bool" where
  "default_settled d m = (if map_keys m = [] then d = '''' else d \<in> set (map_keys m))"

subsection \<open>Package machine: the registry inside the custom configuration file\<close>

record EngineConfig =
  ActiveService :: string
  ServiceDestinations :: "Destination go_map"

record Config =
  Engine :: EngineConfig

text \<open>
  \<open>config.ReadCustomConfig\<close> and \<open>Config.Write\<close> belong to the configuration package outside
  the sources. The file holds a configuration; a read returns it or fails, a write replaces
  it or fails. The writer leaves out a table that has no entries, so a configuration written
  with an empty map of destinations is read back with the \<open>nil\<close> map (\<open>omit_empty\<close>).
\<close>

definition omit_empty :: "'v go_map \<Rightarrow> 'v go_map" where
  "omit_empty m = (if map_keys m = [] then None else m)"

record config_file =
  cf_content :: Config
  cf_read_err :: "go_error option"
  cf_write_err :: "go_error option"

definition ReadCustomConfig :: "config_file \<Rightarrow> go_error + Config" where
  "ReadCustomConfig cf = (case cf_read_err cf of Some err \<Rightarrow> Inl err | None \<Rightarrow> Inr (cf_content cf))"

definition Config_Write :: "Config \<Rightarrow> config_file \<Rightarrow> go_error option \<times> config_file" where
  "Config_Write cfg cf =
     (case cf_write_err cf of
        Some err \<Rightarrow> (Some err, cf)
      | None \<Rightarrow>
          (None, cf\<lparr>cf_content := cfg\<lparr>Engine := (Engine cfg)\<lparr>ServiceDestinations :=
                                       omit_empty (ServiceDestinations (Engine cfg))\<rparr>\<rparr>\<rparr>))"

text \<open>\<open>machine.AddConnection\<close>; \<open>uri\<close> stands for \<open>uri.String()\<close>.\<close>

definition machine_AddConnection ::
  "string \<Rightarrow> string \<Rightarrow> string \<Rightarrow> bool \<Rightarrow> config_file \<Rightarrow> go_error option \<times> config_file" where
  "machine_AddConnection uri name identity isDefault cf =
    (if length identity < 1 then (Some (ErrorsNew ''identity must be defined''), cf)
     else case ReadCustomConfig cf of
       Inl err \<Rightarrow> (Some err, cf)
     | Inr cfg \<Rightarrow>
        if map_lookup (ServiceDestinations (Engine cfg)) name \<noteq> None
        then (Some (ErrorsNew ''cannot overwrite connection''), cf)
        else
          let cfg = (if isDefault then cfg\<lparr>Engine := (Engine cfg)\<lparr>ActiveService := name\<rparr>\<rparr> else cfg);
              dst = \<lparr>URI = uri, Identity = '''', IsMachine = True\<rparr>;
              dst = dst\<lparr>Identity := identity\<rparr>;
              cfg = (case ServiceDestinations (Engine cfg) of
                       None \<Rightarrow> cfg\<lparr>Engine := (Engine cfg)\<lparr>ServiceDestinations := Some [(name, dst)],
                                                           ActiveService := name\<rparr>\<rparr>
                     | Some al \<Rightarrow> cfg\<lparr>Engine := (Engine cfg)\<lparr>ServiceDestinations :=
                                                           Some (AList.update name dst al)\<rparr>\<rparr>)
          in Config_Write cfg cf)"

text \<open>
  \<open>machine.RemoveConnections\<close>: the loop over \<open>names\<close> works on the configuration read; a
  name that is missing ends the call before anything is written.
\<close>

fun machine_RemoveConnections_loop ::
  "(string list \<Rightarrow> string) \<Rightarrow> string list \<Rightarrow> Config \<Rightarrow> go_error option \<times> Config" where
  "machine_RemoveConnections_loop pick [] cfg = (None, cfg)"
| "machine_RemoveConnections_loop pick (name # names) cfg =
    (if map_lookup (ServiceDestinations (Engine cfg)) name \<noteq> None
     then
       let cfg = cfg\<lparr>Engine := (Engine cfg)\<lparr>ServiceDestinations :=
                   map_delete name (ServiceDestinations (Engine cfg))\<rparr>\<rparr>;
           cfg = (if ActiveService (Engine cfg) = name
                  then
                    let cfg = cfg\<lparr>Engine := (Engine cfg)\<lparr>ActiveService := ''''\<rparr>\<rparr>;
                        keys = map_keys (ServiceDestinations (Engine cfg))
                    in (if keys = [] then cfg
                        else cfg\<lparr>Engine := (Engine cfg)\<lparr>ActiveService := pick keys\<rparr>\<rparr>)
                  else cfg)
       in machine_RemoveConnections_loop pick names cfg
     else (Some (Errorf ''unable to find connection named %q'' [name]), cfg))"

definition machine_RemoveConnections ::
  "(string list \<Rightarrow> string) \<Rightarrow> string list \<Rightarrow> config_file \<Rightarrow> go_error option \<times> config_file" where
  "machine_RemoveConnections pick names cf =
    (case ReadCustomConfig cf of
       Inl err \<Rightarrow> (Some err, cf)
     | Inr cfg \<Rightarrow>
        (case machine_RemoveConnections_loop pick names cfg of
           (Some err, _) \<Rightarrow> (Some err, cf)
         | (None, cfg') \<Rightarrow> Config_Write cfg' cf))"

subsection \<open>Package connection: the registry in the connections file\<close>

text \<open>A \<open>connection\<close>: its name and \<open>uri.String()\<close>.\<close>

record connection =
  con_name :: string
  con_uri :: string

record ConnectionConfig =
  Default :: string
  Connections :: "Destination go_map"

record ConnectionsFile =
  Connection :: ConnectionConfig

record connections_store =
  cs_content :: ConnectionsFile
  cs_read_err :: "go_error option"
  cs_write_err :: "go_error option"

text \<open>
  Modelled from the spec: \<open>config.EditConnectionConfig\<close> belongs to the configuration
  package outside the sources. Sections 5 and 6 of the specification: an edit reads the
  registry, applies the mutation, and persists the result; a mutation that fails persists
  nothing. The callback also updates the variables it captured (\<open>vars\<close>), whatever it
  returns.
\<close>

definition EditConnectionConfig ::
  "(ConnectionsFile \<Rightarrow> 'c \<Rightarrow> go_error option \<times> ConnectionsFile \<times> 'c) \<Rightarrow> 'c \<Rightarrow> connections_store
     \<Rightarrow> go_error option \<times> 'c \<times> connections_store" where
  "EditConnectionConfig callback vars st =
    (case cs_read_err st of
       Some err \<Rightarrow> (Some err, vars, st)
     | None \<Rightarrow>
        (case callback (cs_content st) vars of
           (Some err, _, vars') \<Rightarrow> (Some err, vars', st)
         | (None, cfg', vars') \<Rightarrow>
             (case cs_write_err st of
                Some err \<Rightarrow> (Some err, vars', st)
              | None \<Rightarrow> (None, vars', st\<lparr>cs_content := cfg'\<rparr>))))"

text \<open>The body of the callback of \<open>addConnection\<close>: the loop over \<open>cons\<close>, \<open>i\<close> the index.\<close>

fun addConnection_loop ::
  "string \<Rightarrow> bool \<Rightarrow> nat \<Rightarrow> connection list \<Rightarrow> ConnectionsFile \<Rightarrow> go_error option \<times> ConnectionsFile" where
  "addConnection_loop identity isDefault i [] cfg = (None, cfg)"
| "addConnection_loop identity isDefault i (con # cons) cfg =
    (if map_lookup (Connections (Connection cfg)) (con_name con) \<noteq> None
     then (Some (Errorf ''cannot overwrite connection %q'' [con_name con]), cfg)
     else
       let dst = \<lparr>URI = con_uri con, Identity = identity, IsMachine = True\<rparr>;
           cfg = (if isDefault \<and> i = 0
                  then cfg\<lparr>Connection := (Connection cfg)\<lparr>Default := con_name con\<rparr>\<rparr> else cfg);
           cfg = (case Connections (Connection cfg) of
                    None \<Rightarrow> cfg\<lparr>Connection := (Connection cfg)\<lparr>Connections := Some [(con_name con, dst)],
                                                              Default := con_name con\<rparr>\<rparr>
                  | Some al \<Rightarrow> cfg\<lparr>Connection := (Connection cfg)\<lparr>Connections :=
                                                              Some (AList.update (con_name con) dst al)\<rparr>\<rparr>)
       in addConnection_loop identity isDefault (Suc i) cons cfg)"

definition addConnection ::
  "connection list \<Rightarrow> string \<Rightarrow> bool \<Rightarrow> connections_store \<Rightarrow> go_error option \<times> connections_store" where
  "addConnection cons identity isDefault st =
    (if length identity < 1 then (Some (ErrorsNew ''identity must be defined''), st)
     else
       case EditConnectionConfig
              (\<lambda>cfg u. case addConnection_loop identity isDefault 0 cons cfg of
                          (err, cfg') \<Rightarrow> (err, cfg', u)) () st of
         (err, _, st') \<Rightarrow> (err, st'))"

text \<open>The body of the callback of \<open>UpdateConnectionIfDefault\<close>, which never fails.\<close>

definition UpdateConnectionIfDefault_callback ::
  "bool \<Rightarrow> string \<Rightarrow> string \<Rightarrow> ConnectionsFile \<Rightarrow> ConnectionsFile" where
  "UpdateConnectionIfDefault_callback rootful name rootfulName cfg =
    (if name = Default (Connection cfg) \<and> rootful
     then cfg\<lparr>Connection := (Connection cfg)\<lparr>Default := rootfulName\<rparr>\<rparr>
     else if rootfulName = Default (Connection cfg) \<and> \<not> rootful
     then cfg\<lparr>Connection := (Connection cfg)\<lparr>Default := name\<rparr>\<rparr>
     else cfg)"

definition UpdateConnectionIfDefault ::
  "bool \<Rightarrow> string \<Rightarrow> string \<Rightarrow> connections_store \<Rightarrow> go_error option \<times> connections_store" where
  "UpdateConnectionIfDefault rootful name rootfulName st =
    (case EditConnectionConfig
            (\<lambda>cfg u. (None, UpdateConnectionIfDefault_callback rootful name rootfulName cfg, u))
            () st of
       (err, _, st') \<Rightarrow> (err, st'))"

text \<open>\<open>setNewDefaultConnection\<close>: first the loop that deletes the named entries.\<close>

fun setNewDefaultConnection_loop ::
  "string list \<Rightarrow> ConnectionsFile \<Rightarrow> go_error option \<times> ConnectionsFile" where
  "setNewDefaultConnection_loop [] cfg = (None, cfg)"
| "setNewDefaultConnection_loop (name # names) cfg =
    (if map_lookup (Connections (Connection cfg)) name \<noteq> None
     then
       let cfg = cfg\<lparr>Connection := (Connection cfg)\<lparr>Connections :=
                   map_delete name (Connections (Connection cfg))\<rparr>\<rparr>;
           cfg = (if Default (Connection cfg) = name
                  then cfg\<lparr>Connection := (Connection cfg)\<lparr>Default := ''''\<rparr>\<rparr> else cfg)
       in setNewDefaultConnection_loop names cfg
     else (Some (Errorf ''unable to find connection named %q'' [name]), cfg))"

text \<open>
  Then the \<open>range\<close> loop that stops after its first key. \<open>dest\<close> and \<open>service\<close> are the two
  variables the function writes through its pointer arguments.
\<close>

definition setNewDefaultConnection ::
  "(string list \<Rightarrow> string) \<Rightarrow> ConnectionsFile \<Rightarrow> Destination \<Rightarrow> string \<Rightarrow> string list
     \<Rightarrow> go_error option \<times> ConnectionsFile \<times> Destination \<times> string" where
  "setNewDefaultConnection pick cfg dest service names =
    (case setNewDefaultConnection_loop names cfg of
       (Some err, cfg) \<Rightarrow> (Some err, cfg, dest, service)
     | (None, cfg) \<Rightarrow>
        let keys = map_keys (Connections (Connection cfg))
        in if keys = [] then (None, cfg, dest, service)
           else
             let con = pick keys;
                 cfg = cfg\<lparr>Connection := (Connection cfg)\<lparr>Default := con\<rparr>\<rparr>
             in (case map_lookup (Connections (Connection cfg)) con of
                   Some c \<Rightarrow> (None, cfg, c, con)
                 | None \<Rightarrow> (None, cfg, dest, service)))"

text \<open>The zero value of \<open>config.Destination\<close>, which \<open>var dest\<close> starts from.\<close>

definition zero_Destination :: Destination where
  "zero_Destination = \<lparr>URI = '''', Identity = '''', IsMachine = False\<rparr>"

text \<open>
  \<open>connection.RemoveConnections\<close>; \<open>machines\<close> is only read (\<open>machines[service]\<close>), so it is a
  partial function from names to the rootful flag.
\<close>

definition connection_RemoveConnections ::
  "(string list \<Rightarrow> string) \<Rightarrow> (string \<rightharpoonup> bool) \<Rightarrow> string list \<Rightarrow> connections_store
     \<Rightarrow> go_error option \<times> connections_store" where
  "connection_RemoveConnections pick machines names st =
    (let dest = zero_Destination;
         service = ''''
     in case EditConnectionConfig
               (\<lambda>cfg (dest, service).
                  case setNewDefaultConnection pick cfg dest service names of
                    (err, cfg', dest', service') \<Rightarrow> (err, cfg', (dest', service')))
               (dest, service) st of
          (Some err, _, st') \<Rightarrow> (Some err, st')
        | (None, (dest, service), st') \<Rightarrow>
            (case machines service of
               Some rootful \<Rightarrow>
                 if IsMachine dest
                 then UpdateConnectionIfDefault rootful service (service @ ''-root'') st'
                 else (None, st')
             | None \<Rightarrow> (None, st')))"

section \<open>pkg/machine/applehv/machine.go\<close>

text \<open>
  Modelled from the spec: the type \<open>machine.Status\<close> and its values are declared outside
  the sources; section 4.5 of the specification lists the states.
\<close>

datatype Status = Running | Stopped | Starting

text \<open>
  The embedded structs of \<open>MacMachine\<close>. \<open>ImageConfig\<close> and \<open>ResourceConfig\<close> have the fields
  \<open>Inspect\<close> copies; \<open>HostUser\<close>, \<open>SSHConfig\<close> have the fields the code reads and section 3 of
  the specification names. \<open>machine.Mount\<close> is never looked into.
\<close>

typedecl Mount

record HostUser =
  UID :: go_int

record ImageConfig =
  IgnitionFile :: VMFile
  ImageStream :: string
  ImagePath :: VMFile

record ResourceConfig =
  CPUs :: uint64
  DiskSize :: uint64
  Memory :: uint64

record SSHConfig =
  IdentityPath :: string
  Port :: go_int
  RemoteUsername :: string
  Rootful :: bool

record VfkitHelper =
  Bootloader :: string
  Devices :: "string list"
  LogLevel :: "32 word"
  PathToVfkitBinary :: string
  Endpoint :: string

text \<open>\<open>time.Time\<close>: an instant, as a number.\<close>

type_synonym Time = int

record MacMachine =
  ConfigPath :: VMFile
  HostUser :: HostUser
  ImageConfig :: ImageConfig
  Mounts :: "Mount list"
  Name :: string
  ResourceConfig :: ResourceConfig
  SSHConfig :: SSHConfig
  m_Starting :: bool
  Created :: Time
  LastUp :: Time
  VfkitHelper :: VfkitHelper

text \<open>The option structs, declared outside the sources: the fields the code reads.\<close>

record SetOptions =
  so_CPUs :: "uint64 option"
  so_DiskSize :: "uint64 option"
  so_Memory :: "uint64 option"

record RemoveOptions =
  Force :: bool
  SaveKeys :: bool
  SaveImage :: bool
  SaveIgnition :: bool

type_synonym StartOptions = unit
type_synonym StopOptions = unit

text \<open>
  What the operations act on beside the record in memory: the files (a configuration file
  holds the JSON of a record, which \<open>MachineJSON\<close> stands for; any other content is a
  \<open>Blob\<close>), the errors the operating system answers a write or a removal of a path with,
  the custom configuration file with the connection registry, and what was logged.
  \<open>os.WriteFile\<close> opens the file truncating it and then writes, so a write that fails may
  leave the file as it was (the open was refused), empty, or partly written:
  \<open>write_leaves\<close> gives, for a path and what the path held, what a failed write leaves there.
\<close>

datatype file_content = MachineJSON MacMachine | Blob string

record world =
  files :: "string \<rightharpoonup> file_content"
  write_err :: "string \<Rightarrow> go_error option"
  write_leaves :: "string \<Rightarrow> file_content option \<Rightarrow> file_content option"
  remove_err :: "string \<Rightarrow> go_error option"
  custom_config :: config_file
  logged :: "go_error list"

text \<open>
  The methods the file calls and does not define: of \<open>VfkitHelper\<close> (\<open>state\<close>, \<open>startVfkit\<close>,
  \<open>stop\<close>) and of \<open>MacMachine\<close> (\<open>state\<close>, \<open>stop\<close>). They are parameters; so is the key a
  \<open>range\<close> over a map visits first.
\<close>

record ext =
  VfkitHelper_state :: "VfkitHelper \<Rightarrow> world \<Rightarrow> go_error + Status"
  VfkitHelper_startVfkit :: "MacMachine \<Rightarrow> world \<Rightarrow> go_error option \<times> MacMachine \<times> world"
  VfkitHelper_stop :: "bool \<Rightarrow> bool \<Rightarrow> VfkitHelper \<Rightarrow> world \<Rightarrow> go_error option \<times> world"
  MacMachine_state :: "MacMachine \<Rightarrow> world \<Rightarrow> go_error + Status"
  MacMachine_stop :: "bool \<Rightarrow> bool \<Rightarrow> MacMachine \<Rightarrow> world \<Rightarrow> go_error option \<times> world"
  range_first :: "string list \<Rightarrow> string"

text \<open>\<open>os.WriteFile\<close> and \<open>os.Remove\<close>.\<close>

definition os_WriteFile :: "string \<Rightarrow> file_content \<Rightarrow> world \<Rightarrow> go_error option \<times> world" where
  "os_WriteFile path b w =
     (case write_err w path of
        Some err \<Rightarrow> (Some err, w\<lparr>files := (files w)(path := write_leaves w path (files w path))\<rparr>)
      | None \<Rightarrow> (None, w\<lparr>files := (files w)(path \<mapsto> b)\<rparr>))"

definition os_Remove :: "string \<Rightarrow> world \<Rightarrow> go_error option \<times> world" where
  "os_Remove path w =
     (case files w path of
        None \<Rightarrow> (Some ErrNotExist, w)
      | Some _ \<Rightarrow>
         (case remove_err w path of
            Some err \<Rightarrow> (Some err, w)
          | None \<Rightarrow> (None, w\<lparr>files := (files w)(path := None)\<rparr>)))"

definition logrus_Error :: "go_error \<Rightarrow> world \<Rightarrow> world" where
  "logrus_Error err w = w\<lparr>logged := logged w @ [err]\<rparr>"

text \<open>\<open>writeConfig\<close>: marshalling a \<open>MacMachine\<close> does not fail; the write may.\<close>

definition writeConfig :: "MacMachine \<Rightarrow> world \<Rightarrow> go_error option \<times> world" where
  "writeConfig m w = os_WriteFile (Path (ConfigPath m)) (MachineJSON m) w"

definition State :: "ext \<Rightarrow> bool \<Rightarrow> MacMachine \<Rightarrow> world \<Rightarrow> go_error + Status" where
  "State x b m w =
     (case VfkitHelper_state x (VfkitHelper m) w of
        Inl err \<Rightarrow> Inl err
      | Inr vmStatus \<Rightarrow> Inr vmStatus)"

definition Start ::
  "ext \<Rightarrow> string \<Rightarrow> StartOptions \<Rightarrow> MacMachine \<Rightarrow> world \<Rightarrow> go_error option \<times> MacMachine \<times> world" where
  "Start x name opts m w =
     (case State x False m w of
        Inl err \<Rightarrow> (Some err, m, w)
      | Inr st \<Rightarrow>
         if st = Running then (Some ErrVMAlreadyRunning, m, w)
         else VfkitHelper_startVfkit x m w)"

definition Stop ::
  "ext \<Rightarrow> string \<Rightarrow> StopOptions \<Rightarrow> MacMachine \<Rightarrow> world \<Rightarrow> go_error option \<times> world" where
  "Stop x name opts m w =
     (case State x False m w of
        Inl err \<Rightarrow> (Some err, w)
      | Inr vmState \<Rightarrow>
         if vmState \<noteq> Running then (Some ErrWrongState, w)
         else VfkitHelper_stop x False True (VfkitHelper m) w)"

text \<open>
  \<open>Set\<close>, in three parts: the updates of the fields with the validation errors they
  collect, the write of the configuration, and the \<open>switch\<close> on the number of collected
  errors. A slice of errors is a list; its elements may be \<open>nil\<close>.
\<close>

definition Set_fields :: "SetOptions \<Rightarrow> MacMachine \<Rightarrow> MacMachine \<times> go_error option list" where
  "Set_fields opts m =
    (let setErrors = [];
         m = (case so_CPUs opts of
                Some cpus \<Rightarrow> m\<lparr>ResourceConfig := (ResourceConfig m)\<lparr>CPUs := cpus\<rparr>\<rparr>
              | None \<Rightarrow> m);
         m = (case so_Memory opts of
                Some mem \<Rightarrow> m\<lparr>ResourceConfig := (ResourceConfig m)\<lparr>Memory := mem\<rparr>\<rparr>
              | None \<Rightarrow> m)
     in case so_DiskSize opts of
          Some newSize \<Rightarrow>
            if newSize < DiskSize (ResourceConfig m)
            then (m, setErrors @ [Some (ErrorsNew
                    ''new disk size smaller than existing disk size: cannot shrink disk size'')])
            else (m\<lparr>ResourceConfig := (ResourceConfig m)\<lparr>DiskSize := newSize\<rparr>\<rparr>, setErrors)
        | None \<Rightarrow> (m, setErrors))"

definition Set_switch :: "go_error option list \<Rightarrow> go_error option list \<times> go_error option" where
  "Set_switch setErrors =
    (case length setErrors of
       0 \<Rightarrow> (setErrors, None)
     | Suc 0 \<Rightarrow> ([], setErrors ! 0)
     | _ \<Rightarrow>
        let lastErr = setErrors ! (length setErrors - 1)
        in (take (length setErrors - 1) setErrors, lastErr))"

definition Set ::
  "ext \<Rightarrow> string \<Rightarrow> SetOptions \<Rightarrow> MacMachine \<Rightarrow> world
     \<Rightarrow> (go_error option list \<times> go_error option) \<times> MacMachine \<times> world" where
  "Set x name opts m w =
    (case State x False m w of
       Inl err \<Rightarrow> (([], Some err), m, w)
     | Inr vmState \<Rightarrow>
        if vmState \<noteq> Stopped then (([], Some ErrWrongState), m, w)
        else
          (case Set_fields opts m of
             (m, setErrors) \<Rightarrow>
               (case writeConfig m w of
                  (err, w) \<Rightarrow>
                    let setErrors = setErrors @ [err]
                    in (Set_switch setErrors, m, w))))"

text \<open>
  \<open>Remove\<close> returns the confirmation message, the function that deletes (\<open>None\<close> for a
  \<open>nil\<close> function) and the error. The returned function is \<open>Remove_func\<close>, closed over the
  list of files and the machine.
\<close>

definition Remove_func :: "ext \<Rightarrow> MacMachine \<Rightarrow> string list \<Rightarrow> world \<Rightarrow> go_error option \<times> world" where
  "Remove_func x m fs w =
    (let w = foldl (\<lambda>w f. case os_Remove f w of
                            (Some err, w') \<Rightarrow> if err \<noteq> ErrNotExist then logrus_Error err w' else w'
                          | (None, w') \<Rightarrow> w') w fs;
         w = (case machine_RemoveConnections (range_first x) [Name m] (custom_config w) of
                (Some err, cf) \<Rightarrow> logrus_Error err (w\<lparr>custom_config := cf\<rparr>)
              | (None, cf) \<Rightarrow> w\<lparr>custom_config := cf\<rparr>);
         w = (case machine_RemoveConnections (range_first x) [Name m @ ''-root''] (custom_config w) of
                (Some err, cf) \<Rightarrow> logrus_Error err (w\<lparr>custom_config := cf\<rparr>)
              | (None, cf) \<Rightarrow> w\<lparr>custom_config := cf\<rparr>)
     in (None, w))"

definition Remove ::
  "ext \<Rightarrow> string \<Rightarrow> RemoveOptions \<Rightarrow> MacMachine \<Rightarrow> world
     \<Rightarrow> (string \<times> (world \<Rightarrow> go_error option \<times> world) option \<times> go_error option) \<times> world" where
  "Remove x name opts m w =
    (case MacMachine_state x m w of
       Inl err \<Rightarrow> (('''', None, Some err), w)
     | Inr vmState \<Rightarrow>
        if vmState = Running \<and> \<not> Force opts
        then (('''', None, Some (Errorf ''invalid state: %s is running'' [Name m])), w)
        else
          (case (if vmState = Running then MacMachine_stop x True True m w else (None, w)) of
             (Some err, w) \<Rightarrow> (('''', None, Some err), w)
           | (None, w) \<Rightarrow>
              let fs = [];
                  fs = (if \<not> SaveKeys opts
                        then fs @ [IdentityPath (SSHConfig m), IdentityPath (SSHConfig m) @ ''.pub'']
                        else fs);
                  fs = (if \<not> SaveIgnition opts
                        then fs @ [GetPath (IgnitionFile (ImageConfig m))] else fs);
                  fs = (if \<not> SaveImage opts
                        then fs @ [GetPath (ImagePath (ImageConfig m))] else fs);
                  fs = fs @ [GetPath (ConfigPath m)];
                  confirmationMessage =
                    [CHR 0x0A] @ ''The following files will be deleted:'' @ [CHR 0x0A, CHR 0x0A];
                  confirmationMessage = foldl (\<lambda>msg f. msg @ f @ [CHR 0x0A]) confirmationMessage fs;
                  confirmationMessage = confirmationMessage @ [CHR 0x0A]
              in ((confirmationMessage, Some (Remove_func x m fs), None), w)))"

section \<open>Sample values\<close>

text \<open>A machine, its files and registry, and collaborators that report a given state.\<close>

definition sample_machine :: MacMachine where
  "sample_machine =
    \<lparr>ConfigPath = \<lparr>Path = ''/conf/box.json'', GetPath = ''/conf/box.json''\<rparr>,
     HostUser = \<lparr>UID = 501\<rparr>,
     ImageConfig = \<lparr>IgnitionFile = \<lparr>Path = ''/conf/box.ign'', GetPath = ''/conf/box.ign''\<rparr>,
       ImageStream = ''testing'', ImagePath = \<lparr>Path = ''/data/box.raw'', GetPath = ''/data/box.raw''\<rparr>\<rparr>,
     Mounts = [], Name = ''box'',
     ResourceConfig = \<lparr>CPUs = 2, DiskSize = 20, Memory = 2048\<rparr>,
     SSHConfig = \<lparr>IdentityPath = ''/ssh/box'', Port = 22, RemoteUsername = ''core'', Rootful = False\<rparr>,
     m_Starting = False, Created = 1, LastUp = 1,
     VfkitHelper = \<lparr>Bootloader = '''', Devices = [], LogLevel = 4, PathToVfkitBinary = ''/bin/vfkit'',
       Endpoint = ''http://localhost:8081''\<rparr>\<rparr>"

definition machine_dest :: "string \<Rightarrow> Destination" where
  "machine_dest uri = \<lparr>URI = uri, Identity = ''/ssh/box'', IsMachine = True\<rparr>"

definition sample_registry :: config_file where
  "sample_registry =
    \<lparr>cf_content = \<lparr>Engine = \<lparr>ActiveService = ''box'',
       ServiceDestinations = Some
         [(''box'', machine_dest ''ssh://core@192.168.64.2:22/run/user/501/podman/podman.sock''),
          (''box-root'', machine_dest ''ssh://root@localhost:22/run/podman/podman.sock'')]\<rparr>\<rparr>,
     cf_read_err = None, cf_write_err = None\<rparr>"

definition sample_world :: world where
  "sample_world =
    \<lparr>files = [''/conf/box.json'' \<mapsto> MachineJSON sample_machine, ''/data/box.raw'' \<mapsto> Blob ''image''],
     write_err = (\<lambda>path. None), write_leaves = (\<lambda>path held. held),
     remove_err = (\<lambda>path. None), custom_config = sample_registry, logged = []\<rparr>"

text \<open>Every write is refused at the open: the files stay as they are.\<close>

definition readonly_world :: world where
  "readonly_world = sample_world\<lparr>write_err := (\<lambda>path. Some (External ''permission denied''))\<rparr>"

text \<open>Every write fails after the open: the file written to is left empty.\<close>

definition truncating_world :: world where
  "truncating_world = sample_world\<lparr>write_err := (\<lambda>path. Some (External ''no space left on device'')),
     write_leaves := (\<lambda>path held. Some (Blob ''''))\<rparr>"

definition sample_ext :: "Status \<Rightarrow> ext" where
  "sample_ext st =
    \<lparr>VfkitHelper_state = (\<lambda>vf w. Inr st),
     VfkitHelper_startVfkit = (\<lambda>m w. (None, m, w)),
     VfkitHelper_stop = (\<lambda>force wait vf w. (None, w)),
     MacMachine_state = (\<lambda>m w. Inr st),
     MacMachine_stop = (\<lambda>force wait m w. (None, w)),
     range_first = hd\<rparr>"

definition grow_opts :: SetOptions where
  "grow_opts = \<lparr>so_CPUs = None, so_DiskSize = Some 30, so_Memory = None\<rparr>"

definition shrink_opts :: SetOptions where
  "shrink_opts = \<lparr>so_CPUs = Some 4, so_DiskSize = Some 10, so_Memory = None\<rparr>"

text \<open>The error \<open>Set\<close> collects for a request to shrink the disk.\<close>

definition shrink_error :: go_error where
  "shrink_error = ErrorsNew ''new disk size smaller than existing disk size: cannot shrink disk size''"

text \<open>Connections files: three plain entries; a rootful machine beside a plain entry.\<close>

definition plain_dest :: Destination where
  "plain_dest = \<lparr>URI = ''ssh://user@host:22/run/podman/podman.sock'', Identity = ''/ssh/id'',
     IsMachine = False\<rparr>"

definition store_of :: "string \<Rightarrow> (string \<times> Destination) list option \<Rightarrow> connections_store" where
  "store_of d m =
     \<lparr>cs_content = \<lparr>Connection = \<lparr>Default = d, Connections = m\<rparr>\<rparr>,
      cs_read_err = None, cs_write_err = None\<rparr>"

definition dev_connection :: connection where
  "dev_connection = \<lparr>con_name = ''dev'', con_uri = ''ssh://core@localhost:22/run/podman/podman.sock''\<rparr>"

definition grown_machine :: MacMachine where
  "grown_machine = sample_machine\<lparr>ResourceConfig := \<lparr>CPUs = 2, DiskSize = 30, Memory = 2048\<rparr>\<rparr>"

definition grown_world :: world where
  "grown_world = sample_world\<lparr>files := (files sample_world)(''/conf/box.json'' \<mapsto> MachineJSON grown_machine)\<rparr>"

definition truncated_world :: world where
  "truncated_world = truncating_world\<lparr>files := (files truncating_world)(''/conf/box.json'' \<mapsto> Blob '''')\<rparr>"

definition root_only_registry :: config_file where
  "root_only_registry =
    \<lparr>cf_content = \<lparr>Engine = \<lparr>ActiveService = ''box-root'',
       ServiceDestinations = Some
         [(''box-root'', machine_dest ''ssh://root@localhost:22/run/podman/podman.sock'')]\<rparr>\<rparr>,
     cf_read_err = None, cf_write_err = None\<rparr>"

definition rootful_box_store :: connections_store where
  "rootful_box_store = store_of ''box''
     (Some [(''box'', machine_dest ''ssh://core@localhost:22/run/user/501/podman/podman.sock''),
            (''x'', plain_dest)])"

definition x_default_store :: connections_store where
  "x_default_store = store_of ''x''
     (Some [(''box'', machine_dest ''ssh://core@localhost:22/run/user/501/podman/podman.sock''),
            (''x'', plain_dest)])"

definition paired_box_store :: connections_store where
  "paired_box_store = store_of ''box-root''
     (Some [(''box'', machine_dest ''ssh://core@localhost:22/run/user/501/podman/podman.sock''),
            (''box-root'', machine_dest ''ssh://root@localhost:22/run/podman/podman.sock'')])"

definition abc_store :: "string \<Rightarrow> connections_store" where
  "abc_store d = store_of d (Some [(''a'', plain_dest), (''b'', plain_dest), (''c'', plain_dest)])"

definition ab_store :: "string \<Rightarrow> connections_store" where
  "ab_store d = store_of d (Some [(''a'', plain_dest), (''b'', plain_dest)])"

definition dev_dest :: Destination where
  "dev_dest = \<lparr>URI = ''ssh://core@localhost:22/run/podman/podman.sock'', Identity = ''/ssh/id'',
     IsMachine = True\<rparr>"

definition engine_file :: "string \<Rightarrow> (string \<times> Destination) list option \<Rightarrow> config_file" where
  "engine_file d m =
     \<lparr>cf_content = \<lparr>Engine = \<lparr>ActiveService = d, ServiceDestinations = m\<rparr>\<rparr>,
      cf_read_err = None, cf_write_err = None\<rparr>"

section \<open>Command synthesis\<close>

lemma foldl_append_concat:
  "foldl (\<lambda>args x. args @ f x) acc xs = acc @ concat (map f xs)"
  by (induction xs arbitrary: acc) simp_all

lemmas sample_defs =
  sample_fw_def sample_qmp_def sample_chardev_def sample_virtfs_def sample_cmd_def

lemmas ToCmdline_defs =
  FirmwareConfigDevice_ToCmdline_def QmpMonitor_ToCmdline_def QmpMonitor_GetServerStatus_def
  QmpMonitor_GetWaitStatus_def Socket_ToCmdline_def VirtioNet_ToCmdline_def Network_ToCmdline_def
  CharDev_ToCmdline_def CharDev_GetWaitStatus_def VirtSerialPort_ToCmdline_def
  SerialPort_ToCmdline_def Virtfs_ToCmdline_def

lemmas Itoa_eval = Itoa_def digits.simps digit_char_def

text \<open>
  C4. Command synthesis is a function of the device model alone, so two calls on the same
  \<open>QemuCmd\<close> give the same argument vector; and the vector is always the concatenation, in
  this order, of: memory, cpu count, the firmware configs (in list order), monitor, network,
  serial, the mounts (in list order), display, accelerator, cpu model, boot drive, bios
  (present when \<open>Bios\<close> is set), machine type. Each device fragment opens with its own flag.
\<close>

theorem QemuCmd_ToCmdline_fixed_order:
  assumes "q' = q"
  shows "QemuCmd_ToCmdline q' = QemuCmd_ToCmdline q \<and>
    QemuCmd_ToCmdline q =
     [''-m'', Itoa (q_Memory q)] @
     [''-smp'', Itoa (q_CPUs q)] @
     concat (map FirmwareConfigDevice_ToCmdline (q_FirmwareConfigs q)) @
     QmpMonitor_ToCmdline (q_QmpMonitor q) @
     Network_ToCmdline (q_Network q) @
     SerialPort_ToCmdline (q_SerialPort q) @
     concat (map Virtfs_ToCmdline (q_Mounts q)) @
     [''-display'', if q_Display q then ''true'' else ''none''] @
     [''-accel'', q_Accelerator q] @
     [''-cpu'', q_CPU q] @
     [''-drive'', ''if=virtio,file='' @ q_BootableImage q] @
     (if q_Bios q \<noteq> '''' then [''-bios'', q_Bios q] else []) @
     [''-M'', q_Machine q] \<and>
    (\<forall>f. \<exists>v. FirmwareConfigDevice_ToCmdline f = [''-fw_cfg'', v]) \<and>
    (\<exists>v. QmpMonitor_ToCmdline (q_QmpMonitor q) = [''-qmp'', v]) \<and>
    (\<exists>a b. Network_ToCmdline (q_Network q) = [''-netdev'', a, ''-device'', b]) \<and>
    (\<exists>a b c. SerialPort_ToCmdline (q_SerialPort q) =
       [''-device'', ''virtio-serial'', ''-chardev'', a, ''-device'', b, ''-pidfile'', c]) \<and>
    (\<forall>v. \<exists>a. Virtfs_ToCmdline v = [''-virtfs'', a])"
proof -
  have order: "QemuCmd_ToCmdline q =
     [''-m'', Itoa (q_Memory q)] @
     [''-smp'', Itoa (q_CPUs q)] @
     concat (map FirmwareConfigDevice_ToCmdline (q_FirmwareConfigs q)) @
     QmpMonitor_ToCmdline (q_QmpMonitor q) @
     Network_ToCmdline (q_Network q) @
     SerialPort_ToCmdline (q_SerialPort q) @
     concat (map Virtfs_ToCmdline (q_Mounts q)) @
     [''-display'', if q_Display q then ''true'' else ''none''] @
     [''-accel'', q_Accelerator q] @
     [''-cpu'', q_CPU q] @
     [''-drive'', ''if=virtio,file='' @ q_BootableImage q] @
     (if q_Bios q \<noteq> '''' then [''-bios'', q_Bios q] else []) @
     [''-M'', q_Machine q]"
    by (simp add: QemuCmd_ToCmdline_def Let_def foldl_append_concat)
  have fw: "\<forall>f. \<exists>v. FirmwareConfigDevice_ToCmdline f = [''-fw_cfg'', v]"
    by (simp add: FirmwareConfigDevice_ToCmdline_def Let_def)
  have qmp: "\<exists>v. QmpMonitor_ToCmdline (q_QmpMonitor q) = [''-qmp'', v]"
    by (simp add: QmpMonitor_ToCmdline_def Let_def)
  have net: "\<exists>a b. Network_ToCmdline (q_Network q) = [''-netdev'', a, ''-device'', b]"
    by (simp add: Network_ToCmdline_def)
  have ser: "\<exists>a b c. SerialPort_ToCmdline (q_SerialPort q) =
       [''-device'', ''virtio-serial'', ''-chardev'', a, ''-device'', b, ''-pidfile'', c]"
    by (simp add: SerialPort_ToCmdline_def CharDev_ToCmdline_def VirtSerialPort_ToCmdline_def
        Let_def)
  have vfs: "\<forall>v. \<exists>a. Virtfs_ToCmdline v = [''-virtfs'', a]"
    by (simp add: Virtfs_ToCmdline_def Let_def)
  from assms order fw qmp net ser vfs show ?thesis
    by blast
qed

theorem QemuCmd_ToCmdline_fixed_order_witness:
  "QemuCmd_ToCmdline sample_cmd =
    [''-m'', ''2048'', ''-smp'', ''2'',
     ''-fw_cfg'', ''name=opt/com.coreos/config,file=/ign'',
     ''-qmp'', ''unix:/qmp.sock,server=on,wait=off'',
     ''-netdev'', ''socket,id=vlan,fd=3'',
     ''-device'', ''virtio-net-pci,netdev=vlan,mac=5a:94:ef:e4:0c:ee'',
     ''-device'', ''virtio-serial'',
     ''-chardev'', ''socket,path=/r.sock,server=on,wait=off,id=apodman-machine-default_ready'',
     ''-device'', ''virtserialport,chardev=apodman-machine-default_ready,name=org.fedoraproject.port.0'',
     ''-pidfile'', ''/pid'',
     ''-virtfs'', ''local,path=/home,mount_tag=vol0'',
     ''-display'', ''none'', ''-accel'', ''kvm'', ''-cpu'', ''host'',
     ''-drive'', ''if=virtio,file=/img'', ''-bios'', ''QEMU_EFI.fd'',
     ''-M'', ''virt,gic-version=max'']"
  using QemuCmd_ToCmdline_fixed_order [OF refl, of sample_cmd]
  by (simp add: sample_defs ToCmdline_defs Itoa_eval Let_def)

lemma fw_fragment:
  "FirmwareConfigDevice_ToCmdline f = [''-fw_cfg'', comma_join (FirmwareConfigDevice_fields f)]"
  by (simp add: FirmwareConfigDevice_ToCmdline_def FirmwareConfigDevice_fields_def
      opt_field_def Let_def)

lemma qmp_fragment:
  "QmpMonitor_ToCmdline q = [''-qmp'', comma_join (QmpMonitor_fields q)]"
  by (simp add: QmpMonitor_ToCmdline_def QmpMonitor_fields_def QmpMonitor_GetServerStatus_def
      QmpMonitor_GetWaitStatus_def Let_def)

lemma socket_fragment:
  "Socket_ToCmdline s = comma_join (Socket_fields s)"
  by (simp add: Socket_ToCmdline_def Socket_fields_def Let_def)

lemma virtfs_fragment:
  "Virtfs_ToCmdline v = [''-virtfs'', comma_join (Virtfs_fields v)]"
  by (simp add: Virtfs_ToCmdline_def Virtfs_fields_def opt_field_def Let_def)

lemma fields_nonempty:
  "[] \<notin> set (FirmwareConfigDevice_fields f) \<and> [] \<notin> set (QmpMonitor_fields q) \<and>
   [] \<notin> set (Socket_fields s) \<and> [] \<notin> set (Virtfs_fields v)"
  by (simp add: FirmwareConfigDevice_fields_def QmpMonitor_fields_def Socket_fields_def
      Virtfs_fields_def opt_field_def)

text \<open>
  C5, as stated, fails: a field left at its zero value is not always omitted. The zero
  value of \<open>Socket.FileDescriptor\<close> is 0, and \<open>Socket.ToCmdline\<close> emits \<open>fd=0\<close> for it (only
  a negative descriptor is left out), with \<open>id=vlan\<close> although \<open>ID\<close> is empty; the zero
  value of the monitor's \<open>Server\<close> and \<open>Wait\<close> is \<open>false\<close>, emitted as \<open>server=off,wait=off\<close>.
\<close>

theorem zero_value_fields_emitted:
  "Socket_ToCmdline \<lparr>sock_ID = '''', sock_FileDescriptor = 0\<rparr> = ''socket,id=vlan,fd=0'' \<and>
   QmpMonitor_ToCmdline
     \<lparr>qmp_Monitor = \<lparr>mon_Address = \<lparr>Path = '''', GetPath = ''''\<rparr>, mon_Network = ''''\<rparr>,
      qmp_Server = False, qmp_Wait = False\<rparr> = [''-qmp'', ''server=off,wait=off'']"
  by (simp add: ToCmdline_defs Itoa_eval Let_def)

text \<open>
  C5, amended. Every fragment is the comma-join of the sub-fields its descriptor emits, none
  of them empty: single commas between sub-fields, none before the first or after the last.
  Which sub-fields are emitted: for the firmware config and the filesystem share, a string
  field is left out when it is empty and \<open>readonly\<close> when the flag is false; the monitor
  leaves out its address part unless network and address are both non-empty, and always
  emits \<open>server=\<close> and \<open>wait=\<close> (as \<open>on\<close> or \<open>off\<close>); the network socket always emits
  \<open>id=vlan\<close>, and \<open>fd=N\<close> for every \<open>N \<ge> 0\<close>, zero included.
\<close>

theorem fragments_comma_joined:
  "FirmwareConfigDevice_ToCmdline f = [''-fw_cfg'', comma_join (FirmwareConfigDevice_fields f)] \<and>
   QmpMonitor_ToCmdline q = [''-qmp'', comma_join (QmpMonitor_fields q)] \<and>
   Socket_ToCmdline s = comma_join (Socket_fields s) \<and>
   Virtfs_ToCmdline v = [''-virtfs'', comma_join (Virtfs_fields v)] \<and>
   [] \<notin> set (FirmwareConfigDevice_fields f) \<and> [] \<notin> set (QmpMonitor_fields q) \<and>
   [] \<notin> set (Socket_fields s) \<and> [] \<notin> set (Virtfs_fields v)"
  using fw_fragment qmp_fragment socket_fragment virtfs_fragment fields_nonempty
  by blast

theorem fragments_comma_joined_witness:
  "FirmwareConfigDevice_ToCmdline sample_fw = [''-fw_cfg'', ''name=opt/com.coreos/config,file=/ign''] \<and>
   FirmwareConfigDevice_fields sample_fw = [''name=opt/com.coreos/config'', ''file=/ign''] \<and>
   QmpMonitor_fields sample_qmp = [''unix:/qmp.sock'', ''server=on'', ''wait=off''] \<and>
   Socket_fields \<lparr>sock_ID = ''net0'', sock_FileDescriptor = - 1\<rparr> = [''socket'', ''id=vlan''] \<and>
   Socket_ToCmdline \<lparr>sock_ID = ''net0'', sock_FileDescriptor = - 1\<rparr> = ''socket,id=vlan'' \<and>
   Virtfs_ToCmdline sample_virtfs = [''-virtfs'', ''local,path=/home,mount_tag=vol0'']"
  using fragments_comma_joined [of sample_fw sample_qmp
      "\<lparr>sock_ID = ''net0'', sock_FileDescriptor = - 1\<rparr>" sample_virtfs]
  by (simp add: sample_defs FirmwareConfigDevice_fields_def QmpMonitor_fields_def
      Socket_fields_def Virtfs_fields_def opt_field_def)

text \<open>
  C10. Two \<open>CharDev\<close> values that agree on \<open>SocketPath\<close> and \<open>Wait\<close> (so differ at most in
  \<open>ID\<close> and \<open>Server\<close>) serialize to the same arguments: the fragment always says
  \<open>server=on\<close> and always ends in the literal \<open>id=apodman-machine-default_ready\<close>.
\<close>

theorem CharDev_ToCmdline_ignores_ID_and_Server:
  assumes "cd_SocketPath c1 = cd_SocketPath c2" and "cd_Wait c1 = cd_Wait c2"
  shows "CharDev_ToCmdline c1 = CharDev_ToCmdline c2 \<and>
         CharDev_ToCmdline c1 =
           [''-chardev'',
            (if GetPath (cd_SocketPath c1) \<noteq> ''''
             then ''socket,path='' @ GetPath (cd_SocketPath c1) @ '','' else '''') @
            ''server=on'' @ '',wait='' @ (if cd_Wait c1 then ''on'' else ''off'') @
            '',id=apodman-machine-default_ready'']"
  using assms by (simp add: CharDev_ToCmdline_def CharDev_GetWaitStatus_def Let_def)

theorem CharDev_ToCmdline_ignores_ID_and_Server_witness:
  "CharDev_ToCmdline sample_chardev =
     CharDev_ToCmdline (sample_chardev\<lparr>cd_ID := ''other-vm_ready'', cd_Server := True\<rparr>) \<and>
   CharDev_ToCmdline sample_chardev =
     [''-chardev'', ''socket,path=/r.sock,server=on,wait=off,id=apodman-machine-default_ready'']"
  using CharDev_ToCmdline_ignores_ID_and_Server
    [of sample_chardev "sample_chardev\<lparr>cd_ID := ''other-vm_ready'', cd_Server := True\<rparr>"]
  by (simp add: sample_defs CharDev_ToCmdline_def CharDev_GetWaitStatus_def Let_def)

section \<open>Machine lifecycle (applehv)\<close>

lemma sample_Stopped:
  "VfkitHelper_state (sample_ext Stopped) (VfkitHelper sample_machine) w = Inr Stopped"
  by (simp add: sample_ext_def)

text \<open>
  C1. A \<open>Start\<close> issued while the state query answers \<open>Running\<close> fails with
  \<open>ErrVMAlreadyRunning\<close>; the record in memory and everything outside it (the files, the
  persisted record among them, and the registry) are as before, and the hypervisor helper
  is not started.
\<close>

theorem Start_while_Running_fails:
  assumes "VfkitHelper_state x (VfkitHelper m) w = Inr Running"
  shows "Start x name opts m w = (Some ErrVMAlreadyRunning, m, w)"
  using assms by (simp add: Start_def State_def)

theorem Start_while_Running_fails_witness:
  "Start (sample_ext Running) ''box'' () sample_machine sample_world =
     (Some ErrVMAlreadyRunning, sample_machine, sample_world)"
  using Start_while_Running_fails [of "sample_ext Running" sample_machine sample_world "''box''" "()"]
  by (simp add: sample_ext_def)

text \<open>
  C3. \<open>Remove\<close> without the force flag, on a machine whose state query answers \<open>Running\<close>,
  fails with the error \<open>invalid state: <name> is running\<close>. It returns no function to run
  (the deleting function is \<open>nil\<close>) and an empty message, and leaves the files and the
  connection registry as they were: nothing is deleted and nothing can be.
\<close>

theorem Remove_while_Running_without_force:
  assumes "MacMachine_state x m w = Inr Running" and "\<not> Force opts"
  shows "Remove x name opts m w =
           (('''', None, Some (Errorf ''invalid state: %s is running'' [Name m])), w)"
  using assms by (simp add: Remove_def)

theorem Remove_while_Running_without_force_witness:
  "Remove (sample_ext Running) ''box''
      \<lparr>Force = False, SaveKeys = False, SaveImage = False, SaveIgnition = False\<rparr>
      sample_machine sample_world =
     (('''', None, Some (Errorf ''invalid state: %s is running'' [''box''])), sample_world)"
  using Remove_while_Running_without_force [of "sample_ext Running" sample_machine sample_world
      "\<lparr>Force = False, SaveKeys = False, SaveImage = False, SaveIgnition = False\<rparr>" "''box''"]
  by (simp add: sample_ext_def sample_machine_def)

lemma Set_switch_two_or_more:
  assumes "2 \<le> length errs"
  shows "Set_switch errs = (butlast errs, last errs)"
proof -
  from assms obtain n where n: "length errs = Suc (Suc n)"
    by (metis Suc_leD Suc_le_D numeral_2_eq_2 Suc_le_mono)
  then have ne: "errs \<noteq> []" by auto
  from n ne show ?thesis
    by (simp add: Set_switch_def Let_def butlast_conv_take last_conv_nth)
qed

lemma Set_fields_errors:
  "Set_fields opts m = (m', errs) \<Longrightarrow> errs = [] \<or> errs = [Some shrink_error]"
  by (auto simp: Set_fields_def shrink_error_def Let_def split: option.splits if_splits)

text \<open>
  C8. When \<open>Set\<close>, on a stopped machine, has collected two or more errors (the results of
  validation, then the result of writing the configuration), it returns all of them but
  the last as the list and the last one as the primary error. The collected list then is
  the disk-shrink error followed by the result of the write (which is \<open>nil\<close> when the
  write went through).
\<close>

theorem Set_returns_all_but_last_and_last:
  assumes "VfkitHelper_state x (VfkitHelper m) w = Inr Stopped"
      and "Set_fields opts m = (m', errs)"
      and "writeConfig m' w = (err, w')"
      and "2 \<le> length (errs @ [err])"
  shows "Set x name opts m w = ((butlast (errs @ [err]), last (errs @ [err])), m', w') \<and>
         butlast (errs @ [err]) = [Some shrink_error] \<and> last (errs @ [err]) = err"
proof -
  have "Set x name opts m w = (Set_switch (errs @ [err]), m', w')"
    using assms(1-3) by (simp add: Set_def State_def)
  moreover have "Set_switch (errs @ [err]) = (butlast (errs @ [err]), last (errs @ [err]))"
    using assms(4) by (rule Set_switch_two_or_more)
  moreover have "errs = [Some shrink_error]"
    using Set_fields_errors [OF assms(2)] assms(4) by auto
  ultimately show ?thesis by simp
qed

lemma writeConfig_refused_at_open:
  assumes "write_err w (Path (ConfigPath m)) = Some e"
      and "write_leaves w (Path (ConfigPath m)) (files w (Path (ConfigPath m))) =
             files w (Path (ConfigPath m))"
  shows "writeConfig m w = (Some e, w)"
  using assms by (simp add: writeConfig_def os_WriteFile_def)

lemma writeConfig_readonly_world:
  "writeConfig m readonly_world = (Some (External ''permission denied''), readonly_world)"
  by (rule writeConfig_refused_at_open) (simp_all add: readonly_world_def sample_world_def)

lemma Set_fields_shrink_sample:
  "Set_fields shrink_opts sample_machine =
     (sample_machine\<lparr>ResourceConfig := \<lparr>CPUs = 4, DiskSize = 20, Memory = 2048\<rparr>\<rparr>,
      [Some shrink_error])"
  by (simp add: Set_fields_def shrink_opts_def shrink_error_def sample_machine_def)

lemma Set_fields_grow_sample:
  "Set_fields grow_opts sample_machine = (grown_machine, [])"
  by (simp add: Set_fields_def grow_opts_def sample_machine_def grown_machine_def)

theorem Set_returns_all_but_last_and_last_witness:
  "Set (sample_ext Stopped) ''box'' shrink_opts sample_machine readonly_world =
     (([Some shrink_error], Some (External ''permission denied'')),
      sample_machine\<lparr>ResourceConfig := \<lparr>CPUs = 4, DiskSize = 20, Memory = 2048\<rparr>\<rparr>, readonly_world)"
  using Set_returns_all_but_last_and_last
    [OF sample_Stopped Set_fields_shrink_sample writeConfig_readonly_world, of "''box''"]
  by simp

text \<open>
  C2, as stated, fails: a requested disk size that is not smaller than the current one is
  applied to the record, but it is persisted only if the configuration file can be
  written. Here the write is refused: \<open>Set\<close> returns the write error, the record in memory
  has the new size 30, and the file still holds the record with size 20.
\<close>

theorem Set_grow_not_persisted_when_write_fails:
  "Set (sample_ext Stopped) ''box'' grow_opts sample_machine readonly_world =
     (([], Some (External ''permission denied'')),
      sample_machine\<lparr>ResourceConfig := \<lparr>CPUs = 2, DiskSize = 30, Memory = 2048\<rparr>\<rparr>, readonly_world) \<and>
   files readonly_world ''/conf/box.json'' = Some (MachineJSON sample_machine) \<and>
   DiskSize (ResourceConfig sample_machine) = 20"
proof -
  have "Set (sample_ext Stopped) ''box'' grow_opts sample_machine readonly_world =
          (([], Some (External ''permission denied'')), grown_machine, readonly_world)"
    by (simp add: Set_def State_def sample_Stopped Set_fields_grow_sample
        writeConfig_readonly_world Set_switch_def)
  moreover have "files readonly_world ''/conf/box.json'' = Some (MachineJSON sample_machine)"
    by (simp add: readonly_world_def sample_world_def)
  moreover have "DiskSize (ResourceConfig sample_machine) = 20"
    by (simp add: sample_machine_def)
  ultimately show ?thesis
    by (simp add: grown_machine_def)
qed

text \<open>
  C2, amended. \<open>Set\<close> on a stopped machine with a requested disk size: a size strictly
  smaller than the current one leaves \<open>DiskSize\<close> as it is and returns the shrink error in
  the list; any other size becomes the \<open>DiskSize\<close> of the record, with no validation error.
  In both cases the record is then written to the configuration file: when the write
  succeeds the file holds the resulting record and the primary error is \<open>nil\<close>; when it
  fails the write error is the primary error.
\<close>

theorem Set_disk_size:
  assumes "VfkitHelper_state x (VfkitHelper m) w = Inr Stopped"
      and "so_DiskSize opts = Some newSize"
      and "Set x name opts m w = ((errs, err), m', w')"
  shows "(newSize < DiskSize (ResourceConfig m) \<longrightarrow>
            DiskSize (ResourceConfig m') = DiskSize (ResourceConfig m) \<and>
            errs = [Some shrink_error]) \<and>
         (\<not> newSize < DiskSize (ResourceConfig m) \<longrightarrow>
            DiskSize (ResourceConfig m') = newSize \<and> errs = []) \<and>
         (write_err w (Path (ConfigPath m)) = None \<longrightarrow>
            files w' (Path (ConfigPath m)) = Some (MachineJSON m') \<and> err = None) \<and>
         (\<forall>e. write_err w (Path (ConfigPath m)) = Some e \<longrightarrow> err = Some e)"
  using assms
  by (auto simp: Set_def State_def Set_fields_def Set_switch_def writeConfig_def os_WriteFile_def
      shrink_error_def Let_def split: option.splits if_splits)

lemma Set_grow_sample:
  "Set (sample_ext Stopped) ''box'' grow_opts sample_machine sample_world =
     (([], None), grown_machine, grown_world)"
proof -
  have wr: "write_err sample_world ''/conf/box.json'' = None"
    by (simp add: sample_world_def)
  have p: "Path (ConfigPath grown_machine) = ''/conf/box.json''"
    by (simp add: grown_machine_def sample_machine_def)
  have w: "writeConfig grown_machine sample_world = (None, grown_world)"
    by (simp add: writeConfig_def os_WriteFile_def p wr grown_world_def)
  show ?thesis
    by (simp add: Set_def State_def sample_Stopped Set_fields_grow_sample w Set_switch_def)
qed

lemma Set_grow_truncating:
  "Set (sample_ext Stopped) ''box'' grow_opts sample_machine truncating_world =
     (([], Some (External ''no space left on device'')), grown_machine, truncated_world)"
proof -
  have wr: "write_err truncating_world ''/conf/box.json'' = Some (External ''no space left on device'')"
    by (simp add: truncating_world_def)
  have wl: "write_leaves truncating_world ''/conf/box.json'' held = Some (Blob '''')" for held
    by (simp add: truncating_world_def)
  have p: "Path (ConfigPath grown_machine) = ''/conf/box.json''"
    by (simp add: grown_machine_def sample_machine_def)
  have w: "writeConfig grown_machine truncating_world =
             (Some (External ''no space left on device''), truncated_world)"
    by (simp add: writeConfig_def os_WriteFile_def p wr wl truncated_world_def)
  show ?thesis
    by (simp add: Set_def State_def sample_Stopped Set_fields_grow_sample w Set_switch_def)
qed

theorem Set_disk_size_witness:
  "Set (sample_ext Stopped) ''box'' grow_opts sample_machine sample_world =
     (([], None), grown_machine, grown_world) \<and>
   DiskSize (ResourceConfig grown_machine) = 30 \<and>
   files grown_world ''/conf/box.json'' = Some (MachineJSON grown_machine) \<and>
   Set (sample_ext Stopped) ''box'' grow_opts sample_machine truncating_world =
     (([], Some (External ''no space left on device'')), grown_machine, truncated_world) \<and>
   files truncated_world ''/conf/box.json'' = Some (Blob '''')"
proof -
  have opts: "so_DiskSize grow_opts = Some 30"
    by (simp add: grow_opts_def)
  have nolt: "\<not> (30 :: uint64) < DiskSize (ResourceConfig sample_machine)"
    by (simp add: sample_machine_def)
  have wr: "write_err sample_world (Path (ConfigPath sample_machine)) = None"
    by (simp add: sample_world_def)
  have p: "Path (ConfigPath sample_machine) = ''/conf/box.json''"
    by (simp add: sample_machine_def)
  have t: "files truncated_world ''/conf/box.json'' = Some (Blob '''')"
    by (simp add: truncated_world_def)
  from Set_disk_size [OF sample_Stopped opts Set_grow_sample]
       Set_disk_size [OF sample_Stopped opts Set_grow_truncating]
       nolt wr p t Set_grow_sample Set_grow_truncating
  show ?thesis by simp
qed

section \<open>The connection registry: removal\<close>

lemma map_keys_delete: "map_keys (map_delete k m) = removeAll k (map_keys m)"
  by (cases m) (simp_all add: map_keys_def map_delete_def delete_keys)

lemma map_lookup_iff_key: "map_lookup m k \<noteq> None \<longleftrightarrow> k \<in> set (map_keys m)"
  by (cases m) (simp_all add: map_lookup_def map_keys_def map_of_eq_None_iff)

lemma map_lookup_Some_key: "map_lookup m k = Some v \<Longrightarrow> k \<in> set (map_keys m)"
  using map_lookup_iff_key [of m k] by simp

lemma range_first_okD: "range_first_ok pick \<Longrightarrow> ks \<noteq> [] \<Longrightarrow> pick ks \<in> set ks"
  by (simp add: range_first_ok_def)

lemma range_first_ok_hd: "range_first_ok hd"
  by (simp add: range_first_ok_def)

lemma range_first_ok_last: "range_first_ok last"
  by (simp add: range_first_ok_def)

lemma settled_imp_valid: "default_settled d m \<Longrightarrow> default_valid d m"
  by (simp add: default_settled_def default_valid_def split: if_splits)

lemma settled_after_delete_other:
  assumes "default_settled d m" and "d \<noteq> k" and "k \<in> set (map_keys m)"
  shows "default_settled d (map_delete k m)"
proof -
  from assms(1,3) have "d \<in> set (map_keys m)"
    by (auto simp: default_settled_def split: if_splits)
  with assms(2) have in_rest: "d \<in> set (removeAll k (map_keys m))" by simp
  then have "removeAll k (map_keys m) \<noteq> []" by (metis empty_iff empty_set)
  with in_rest show ?thesis
    by (simp add: default_settled_def map_keys_delete)
qed

lemma valid_after_delete_other:
  assumes "default_valid d m" and "d \<noteq> k"
  shows "default_valid d (map_delete k m)"
  using assms by (auto simp: default_valid_def map_keys_delete)

lemma settled_after_pick:
  assumes "range_first_ok pick"
  shows "default_settled (if map_keys m = [] then '''' else pick (map_keys m)) m"
  using range_first_okD [OF assms] by (simp add: default_settled_def)

text \<open>One pass of the loop of \<open>machine.RemoveConnections\<close> on a name that is present.\<close>

lemma machine_loop_Cons:
  "machine_RemoveConnections_loop pick (name # names) cfg = (None, cfg') \<Longrightarrow>
   name \<in> set (map_keys (ServiceDestinations (Engine cfg))) \<and>
   (\<exists>cfg1. machine_RemoveConnections_loop pick names cfg1 = (None, cfg') \<and>
      ServiceDestinations (Engine cfg1) = map_delete name (ServiceDestinations (Engine cfg)) \<and>
      ActiveService (Engine cfg1) =
        (if ActiveService (Engine cfg) = name
         then (if map_keys (ServiceDestinations (Engine cfg1)) = [] then ''''
               else pick (map_keys (ServiceDestinations (Engine cfg1))))
         else ActiveService (Engine cfg)))"
  by (auto simp: Let_def split: if_splits dest: map_lookup_Some_key)

lemma machine_loop_settled:
  assumes "range_first_ok pick"
  shows "machine_RemoveConnections_loop pick names cfg = (None, cfg') \<Longrightarrow>
         default_settled (ActiveService (Engine cfg)) (ServiceDestinations (Engine cfg)) \<Longrightarrow>
         default_settled (ActiveService (Engine cfg')) (ServiceDestinations (Engine cfg'))"
proof (induction names arbitrary: cfg)
  case Nil
  then show ?case by simp
next
  case (Cons name names)
  from machine_loop_Cons [OF Cons.prems(1)] obtain cfg1 where
    present: "name \<in> set (map_keys (ServiceDestinations (Engine cfg)))" and
    rest: "machine_RemoveConnections_loop pick names cfg1 = (None, cfg')" and
    sd: "ServiceDestinations (Engine cfg1) = map_delete name (ServiceDestinations (Engine cfg))" and
    as: "ActiveService (Engine cfg1) =
        (if ActiveService (Engine cfg) = name
         then (if map_keys (ServiceDestinations (Engine cfg1)) = [] then ''''
               else pick (map_keys (ServiceDestinations (Engine cfg1))))
         else ActiveService (Engine cfg))"
    by blast
  have "default_settled (ActiveService (Engine cfg1)) (ServiceDestinations (Engine cfg1))"
  proof (cases "ActiveService (Engine cfg) = name")
    case True
    with as settled_after_pick [OF assms, of "ServiceDestinations (Engine cfg1)"]
    show ?thesis by simp
  next
    case False
    with as sd settled_after_delete_other [OF Cons.prems(2) False present]
    show ?thesis by simp
  qed
  with Cons.IH [OF rest] show ?case .
qed

lemma machine_loop_valid:
  assumes "range_first_ok pick"
  shows "machine_RemoveConnections_loop pick names cfg = (None, cfg') \<Longrightarrow>
         default_valid (ActiveService (Engine cfg)) (ServiceDestinations (Engine cfg)) \<Longrightarrow>
         default_valid (ActiveService (Engine cfg')) (ServiceDestinations (Engine cfg'))"
proof (induction names arbitrary: cfg)
  case Nil
  then show ?case by simp
next
  case (Cons name names)
  from machine_loop_Cons [OF Cons.prems(1)] obtain cfg1 where
    rest: "machine_RemoveConnections_loop pick names cfg1 = (None, cfg')" and
    sd: "ServiceDestinations (Engine cfg1) = map_delete name (ServiceDestinations (Engine cfg))" and
    as: "ActiveService (Engine cfg1) =
        (if ActiveService (Engine cfg) = name
         then (if map_keys (ServiceDestinations (Engine cfg1)) = [] then ''''
               else pick (map_keys (ServiceDestinations (Engine cfg1))))
         else ActiveService (Engine cfg))"
    by blast
  have "default_valid (ActiveService (Engine cfg1)) (ServiceDestinations (Engine cfg1))"
  proof (cases "ActiveService (Engine cfg) = name")
    case True
    with as settled_after_pick [OF assms, of "ServiceDestinations (Engine cfg1)"]
    show ?thesis by (simp add: settled_imp_valid)
  next
    case False
    with as sd valid_after_delete_other [OF Cons.prems(2) False]
    show ?thesis by simp
  qed
  with Cons.IH [OF rest] show ?case .
qed

lemma machine_loop_removes_default:
  assumes "range_first_ok pick"
  shows "machine_RemoveConnections_loop pick names cfg = (None, cfg') \<Longrightarrow>
         ActiveService (Engine cfg) \<in> set names \<Longrightarrow>
         default_settled (ActiveService (Engine cfg')) (ServiceDestinations (Engine cfg'))"
proof (induction names arbitrary: cfg)
  case Nil
  then show ?case by simp
next
  case (Cons name names)
  from machine_loop_Cons [OF Cons.prems(1)] obtain cfg1 where
    rest: "machine_RemoveConnections_loop pick names cfg1 = (None, cfg')" and
    sd: "ServiceDestinations (Engine cfg1) = map_delete name (ServiceDestinations (Engine cfg))" and
    as: "ActiveService (Engine cfg1) =
        (if ActiveService (Engine cfg) = name
         then (if map_keys (ServiceDestinations (Engine cfg1)) = [] then ''''
               else pick (map_keys (ServiceDestinations (Engine cfg1))))
         else ActiveService (Engine cfg))"
    by blast
  show ?case
  proof (cases "ActiveService (Engine cfg) = name")
    case True
    with as settled_after_pick [OF assms, of "ServiceDestinations (Engine cfg1)"]
    have "default_settled (ActiveService (Engine cfg1)) (ServiceDestinations (Engine cfg1))"
      by simp
    with machine_loop_settled [OF assms rest] show ?thesis .
  next
    case False
    with as Cons.prems(2) have "ActiveService (Engine cfg1) \<in> set names" by simp
    with Cons.IH [OF rest] show ?thesis .
  qed
qed

lemma snd_loop_Cons:
  "setNewDefaultConnection_loop (name # names) cfg = (None, cfg') \<Longrightarrow>
   name \<in> set (map_keys (Connections (Connection cfg))) \<and>
   (\<exists>cfg1. setNewDefaultConnection_loop names cfg1 = (None, cfg') \<and>
      Connections (Connection cfg1) = map_delete name (Connections (Connection cfg)) \<and>
      Default (Connection cfg1) = (if Default (Connection cfg) = name then '''' else Default (Connection cfg)))"
  by (auto simp: Let_def split: if_splits dest: map_lookup_Some_key)

lemma snd_loop_keys:
  "setNewDefaultConnection_loop names cfg = (None, cfg') \<Longrightarrow>
   set (map_keys (Connections (Connection cfg'))) = set (map_keys (Connections (Connection cfg))) - set names"
proof (induction names arbitrary: cfg)
  case Nil
  then show ?case by simp
next
  case (Cons name names)
  from snd_loop_Cons [OF Cons.prems] obtain cfg1 where
    rest: "setNewDefaultConnection_loop names cfg1 = (None, cfg')" and
    conns: "Connections (Connection cfg1) = map_delete name (Connections (Connection cfg))"
    by blast
  from Cons.IH [OF rest] conns show ?case
    by (auto simp: map_keys_delete)
qed

lemma snd_loop_default:
  "setNewDefaultConnection_loop names cfg = (None, cfg') \<Longrightarrow>
   Default (Connection cfg') =
     (if Default (Connection cfg) \<in> set names then '''' else Default (Connection cfg))"
proof (induction names arbitrary: cfg)
  case Nil
  then show ?case by simp
next
  case (Cons name names)
  from snd_loop_Cons [OF Cons.prems] obtain cfg1 where
    rest: "setNewDefaultConnection_loop names cfg1 = (None, cfg')" and
    dflt: "Default (Connection cfg1) =
      (if Default (Connection cfg) = name then '''' else Default (Connection cfg))"
    by blast
  from Cons.IH [OF rest] dflt show ?case
    by (auto split: if_splits)
qed

text \<open>What \<open>setNewDefaultConnection\<close> returns, by the outcome of its loop.\<close>

lemma setNewDefaultConnection_error:
  "setNewDefaultConnection_loop names cfg = (Some e, cfgL) \<Longrightarrow>
   setNewDefaultConnection pick cfg dest service names = (Some e, cfgL, dest, service)"
  by (simp add: setNewDefaultConnection_def)

lemma setNewDefaultConnection_none_left:
  "setNewDefaultConnection_loop names cfg = (None, cfgL) \<Longrightarrow>
   map_keys (Connections (Connection cfgL)) = [] \<Longrightarrow>
   setNewDefaultConnection pick cfg dest service names = (None, cfgL, dest, service)"
  by (simp add: setNewDefaultConnection_def)

lemma setNewDefaultConnection_some_left:
  "setNewDefaultConnection_loop names cfg = (None, cfgL) \<Longrightarrow>
   map_keys (Connections (Connection cfgL)) \<noteq> [] \<Longrightarrow>
   setNewDefaultConnection pick cfg dest service names =
     (case map_lookup (Connections (Connection cfgL)) (pick (map_keys (Connections (Connection cfgL)))) of
        Some c \<Rightarrow> (None, cfgL\<lparr>Connection := (Connection cfgL)
                     \<lparr>Default := pick (map_keys (Connections (Connection cfgL)))\<rparr>\<rparr>,
                   c, pick (map_keys (Connections (Connection cfgL))))
      | None \<Rightarrow> (None, cfgL\<lparr>Connection := (Connection cfgL)
                     \<lparr>Default := pick (map_keys (Connections (Connection cfgL)))\<rparr>\<rparr>,
                   dest, service))"
  by (simp add: setNewDefaultConnection_def Let_def)

lemma setNewDefaultConnection_success:
  assumes "setNewDefaultConnection pick cfg dest service names = (None, cfg', dest', service')"
  shows "\<exists>cfgL. setNewDefaultConnection_loop names cfg = (None, cfgL) \<and>
           Connections (Connection cfg') = Connections (Connection cfgL) \<and>
           (if map_keys (Connections (Connection cfgL)) = []
            then cfg' = cfgL
            else Default (Connection cfg') = pick (map_keys (Connections (Connection cfgL))))"
proof -
  obtain e cfgL where loop: "setNewDefaultConnection_loop names cfg = (e, cfgL)"
    by (cases "setNewDefaultConnection_loop names cfg") auto
  have e: "e = None"
  proof (cases e)
    case (Some err)
    with loop assms setNewDefaultConnection_error [of names cfg err cfgL pick dest service]
    show ?thesis by simp
  qed simp
  show ?thesis
  proof (cases "map_keys (Connections (Connection cfgL)) = []")
    case True
    with loop e assms setNewDefaultConnection_none_left [of names cfg cfgL pick dest service]
    show ?thesis by simp
  next
    case False
    from loop e have l: "setNewDefaultConnection_loop names cfg = (None, cfgL)" by simp
    from setNewDefaultConnection_some_left [OF l False, of pick dest service] assms
    have "Connections (Connection cfg') = Connections (Connection cfgL) \<and>
          Default (Connection cfg') = pick (map_keys (Connections (Connection cfgL)))"
      by (cases "map_lookup (Connections (Connection cfgL))
                   (pick (map_keys (Connections (Connection cfgL))))") auto
    with l False show ?thesis by auto
  qed
qed

lemma setNewDefaultConnection_settled:
  assumes "range_first_ok pick"
      and "setNewDefaultConnection pick cfg dest service names = (None, cfg', dest', service')"
      and "Default (Connection cfg) \<in> set names \<or>
           default_valid (Default (Connection cfg)) (Connections (Connection cfg))"
  shows "default_settled (Default (Connection cfg')) (Connections (Connection cfg'))"
proof -
  from setNewDefaultConnection_success [OF assms(2)] obtain cfgL where
    loop: "setNewDefaultConnection_loop names cfg = (None, cfgL)" and
    conns: "Connections (Connection cfg') = Connections (Connection cfgL)" and
    rest: "if map_keys (Connections (Connection cfgL)) = []
            then cfg' = cfgL
            else Default (Connection cfg') = pick (map_keys (Connections (Connection cfgL)))"
    by blast
  show ?thesis
  proof (cases "map_keys (Connections (Connection cfgL)) = []")
    case True
    with rest have same: "cfg' = cfgL" by simp
    have "Default (Connection cfgL) = ''''"
    proof (cases "Default (Connection cfg) \<in> set names")
      case True
      with snd_loop_default [OF loop] show ?thesis by simp
    next
      case False
      with assms(3) have valid: "default_valid (Default (Connection cfg)) (Connections (Connection cfg))"
        by simp
      from snd_loop_keys [OF loop] \<open>map_keys (Connections (Connection cfgL)) = []\<close>
      have "set (map_keys (Connections (Connection cfg))) \<subseteq> set names" by simp
      with False valid have "Default (Connection cfg) = ''''"
        by (auto simp: default_valid_def)
      with snd_loop_default [OF loop] False show ?thesis by simp
    qed
    with True same show ?thesis by (simp add: default_settled_def)
  next
    case False
    with rest have "Default (Connection cfg') = pick (map_keys (Connections (Connection cfgL)))"
      by simp
    with conns range_first_okD [OF assms(1) False] False show ?thesis
      by (simp add: default_settled_def)
  qed
qed

lemma machine_Remove_sample:
  "machine_RemoveConnections hd [''box''] sample_registry = (None, root_only_registry)"
  by (simp add: sample_registry_def root_only_registry_def machine_RemoveConnections_def
      ReadCustomConfig_def Config_Write_def omit_empty_def map_lookup_def map_delete_def
      map_keys_def Let_def)

lemma setNewDefault_sample:
  "setNewDefaultConnection hd (cs_content (store_of ''a'' (Some [(''a'', plain_dest)])))
       zero_Destination '''' [''a''] =
     (None, cs_content (store_of '''' (Some [])), zero_Destination, '''')"
  by (simp add: store_of_def setNewDefaultConnection_def map_lookup_def map_delete_def
      map_keys_def Let_def)

lemma map_keys_omit_empty: "map_keys (omit_empty m) = map_keys m"
  by (simp add: omit_empty_def map_keys_def)

lemma machine_RemoveConnections_success:
  assumes "machine_RemoveConnections pick names cf = (None, cf')"
  shows "\<exists>cfg1. machine_RemoveConnections_loop pick names (cf_content cf) = (None, cfg1) \<and>
           ActiveService (Engine (cf_content cf')) = ActiveService (Engine cfg1) \<and>
           ServiceDestinations (Engine (cf_content cf')) =
             omit_empty (ServiceDestinations (Engine cfg1))"
proof -
  obtain e cfg1 where loop: "machine_RemoveConnections_loop pick names (cf_content cf) = (e, cfg1)"
    by (cases "machine_RemoveConnections_loop pick names (cf_content cf)") auto
  with assms show ?thesis
    by (cases e; cases "cf_read_err cf"; cases "cf_write_err cf")
       (auto simp: machine_RemoveConnections_def ReadCustomConfig_def Config_Write_def)
qed

text \<open>
  \<open>machine.RemoveConnections\<close> keeps the default valid. A successful call that removes the
  current default leaves the default naming an entry that is still present, or empty when
  no entry is left; and a default that was empty or named a present entry before a
  successful call still is afterwards. (\<open>range_first_ok\<close>: the key a \<open>range\<close> visits first is
  a key of the map.) For \<open>setNewDefaultConnection\<close> the same is
  \<open>setNewDefaultConnection_settled\<close>.
\<close>

lemma machine_RemoveConnections_keeps_default_valid:
  assumes "range_first_ok pick"
      and "machine_RemoveConnections pick names cf = (None, cf')"
  shows
   "(ActiveService (Engine (cf_content cf)) \<in> set names \<longrightarrow>
       default_settled (ActiveService (Engine (cf_content cf')))
         (ServiceDestinations (Engine (cf_content cf')))) \<and>
    (default_valid (ActiveService (Engine (cf_content cf)))
         (ServiceDestinations (Engine (cf_content cf))) \<longrightarrow>
       default_valid (ActiveService (Engine (cf_content cf')))
         (ServiceDestinations (Engine (cf_content cf'))))"
proof -
  from machine_RemoveConnections_success [OF assms(2)] obtain cfg1 where
    loop: "machine_RemoveConnections_loop pick names (cf_content cf) = (None, cfg1)" and
    a: "ActiveService (Engine (cf_content cf')) = ActiveService (Engine cfg1)" and
    s: "ServiceDestinations (Engine (cf_content cf')) = omit_empty (ServiceDestinations (Engine cfg1))"
    by blast
  have settled: "default_settled (ActiveService (Engine (cf_content cf')))
         (ServiceDestinations (Engine (cf_content cf')))"
    if "ActiveService (Engine (cf_content cf)) \<in> set names"
    using machine_loop_removes_default [OF assms(1) loop that] a s
    by (simp add: default_settled_def map_keys_omit_empty)
  have valid: "default_valid (ActiveService (Engine (cf_content cf')))
         (ServiceDestinations (Engine (cf_content cf')))"
    if "default_valid (ActiveService (Engine (cf_content cf)))
         (ServiceDestinations (Engine (cf_content cf)))"
    using machine_loop_valid [OF assms(1) loop that] a s
    by (simp add: default_valid_def map_keys_omit_empty)
  from settled valid show ?thesis by blast
qed

lemma snd_loop_agree:
  "Connections (Connection A) = Connections (Connection B) \<Longrightarrow>
   fst (setNewDefaultConnection_loop names A) = fst (setNewDefaultConnection_loop names B) \<and>
   Connections (Connection (snd (setNewDefaultConnection_loop names A))) =
     Connections (Connection (snd (setNewDefaultConnection_loop names B)))"
proof (induction names arbitrary: A B)
  case Nil
  then show ?case by simp
next
  case (Cons name names)
  show ?case
  proof (cases "map_lookup (Connections (Connection B)) name")
    case None
    with Cons.prems show ?thesis by simp
  next
    case (Some d)
    define step where "step = (\<lambda>cfg :: ConnectionsFile.
       let cfg = cfg\<lparr>Connection := (Connection cfg)\<lparr>Connections :=
                   map_delete name (Connections (Connection cfg))\<rparr>\<rparr>
       in (if Default (Connection cfg) = name
           then cfg\<lparr>Connection := (Connection cfg)\<lparr>Default := ''''\<rparr>\<rparr> else cfg))"
    have A: "setNewDefaultConnection_loop (name # names) A = setNewDefaultConnection_loop names (step A)"
      using Some Cons.prems by (simp add: step_def Let_def)
    have B: "setNewDefaultConnection_loop (name # names) B = setNewDefaultConnection_loop names (step B)"
      using Some by (simp add: step_def Let_def)
    have "Connections (Connection (step A)) = Connections (Connection (step B))"
      using Cons.prems by (simp add: step_def Let_def)
    from Cons.IH [OF this] A B show ?thesis by simp
  qed
qed

lemma ConnectionConfig_same_but_default:
  fixes a b :: ConnectionConfig
  shows "Connections a = Connections b \<Longrightarrow> a\<lparr>Default := x\<rparr> = b\<lparr>Default := x\<rparr>"
  by (cases a, cases b) simp

lemma ConnectionsFile_same_connection:
  fixes A B :: ConnectionsFile
  shows "A\<lparr>Connection := c\<rparr> = B\<lparr>Connection := c\<rparr>"
  by (cases A, cases B) simp

text \<open>\<open>connection.RemoveConnections\<close>, by the outcome of its first edit.\<close>

lemma connection_Remove_read_fails:
  "cs_read_err st = Some e \<Longrightarrow> fst (connection_RemoveConnections pick machines names st) \<noteq> None"
  by (simp add: connection_RemoveConnections_def EditConnectionConfig_def)

lemma connection_Remove_callback_fails:
  "setNewDefaultConnection pick (cs_content st) zero_Destination '''' names = (Some e, cfg1, dest, service) \<Longrightarrow>
   fst (connection_RemoveConnections pick machines names st) \<noteq> None"
  by (cases "cs_read_err st")
     (simp_all add: connection_RemoveConnections_def EditConnectionConfig_def zero_Destination_def)

lemma connection_Remove_write_fails:
  "cs_write_err st = Some e \<Longrightarrow> fst (connection_RemoveConnections pick machines names st) \<noteq> None"
  by (cases "cs_read_err st";
      cases "setNewDefaultConnection pick (cs_content st) zero_Destination '''' names";
      cases "fst (setNewDefaultConnection pick (cs_content st) zero_Destination '''' names)")
     (simp_all add: connection_RemoveConnections_def EditConnectionConfig_def zero_Destination_def)

lemma connection_Remove_edits:
  "cs_read_err st = None \<Longrightarrow> cs_write_err st = None \<Longrightarrow>
   setNewDefaultConnection pick (cs_content st) zero_Destination '''' names = (None, cfg1, dest, service) \<Longrightarrow>
   connection_RemoveConnections pick machines names st =
     (None, st\<lparr>cs_content :=
        (case machines service of
           Some rootful \<Rightarrow>
             if IsMachine dest
             then UpdateConnectionIfDefault_callback rootful service (service @ ''-root'') cfg1
             else cfg1
         | None \<Rightarrow> cfg1)\<rparr>)"
  by (simp add: connection_RemoveConnections_def EditConnectionConfig_def zero_Destination_def
      UpdateConnectionIfDefault_def split: option.splits)

lemma connection_Remove_success:
  assumes "connection_RemoveConnections pick machines names st = (None, st')"
  shows "\<exists>cfg1 dest service.
           cs_read_err st = None \<and> cs_write_err st = None \<and>
           setNewDefaultConnection pick (cs_content st) zero_Destination '''' names
             = (None, cfg1, dest, service) \<and>
           st' = st\<lparr>cs_content :=
              (case machines service of
                 Some rootful \<Rightarrow>
                   if IsMachine dest
                   then UpdateConnectionIfDefault_callback rootful service (service @ ''-root'') cfg1
                   else cfg1
               | None \<Rightarrow> cfg1)\<rparr>"
proof -
  have r: "cs_read_err st = None"
    using connection_Remove_read_fails [of st _ pick machines names] assms
    by (cases "cs_read_err st") auto
  have w: "cs_write_err st = None"
    using connection_Remove_write_fails [of st _ pick machines names] assms
    by (cases "cs_write_err st") auto
  obtain e cfg1 dest service where
    s: "setNewDefaultConnection pick (cs_content st) zero_Destination '''' names = (e, cfg1, dest, service)"
    by (cases "setNewDefaultConnection pick (cs_content st) zero_Destination '''' names") auto
  have e: "e = None"
    using connection_Remove_callback_fails [of pick st names _ cfg1 dest service machines] s assms
    by (cases e) auto
  from connection_Remove_edits [OF r w s [unfolded e], of machines] assms r w s e
  show ?thesis by auto
qed

lemma callback_Connections:
  "Connections (Connection (UpdateConnectionIfDefault_callback r n rn cfg)) = Connections (Connection cfg)"
  by (simp add: UpdateConnectionIfDefault_callback_def)

lemma callback_Default_of_service:
  "Default (Connection cfg) = service \<Longrightarrow>
   Default (Connection (UpdateConnectionIfDefault_callback r service (service @ ''-root'') cfg)) =
     (if r then service @ ''-root'' else service)"
  by (simp add: UpdateConnectionIfDefault_callback_def)

lemma setNewDefaultConnection_reassigns:
  assumes ok: "range_first_ok pick"
      and s: "setNewDefaultConnection pick cfg dest service names = (None, cfg1, dest1, service1)"
      and left: "map_keys (Connections (Connection cfg1)) \<noteq> []"
  shows "\<exists>cfgL d. setNewDefaultConnection_loop names cfg = (None, cfgL) \<and>
           Connections (Connection cfgL) = Connections (Connection cfg1) \<and>
           map_lookup (Connections (Connection cfg1)) (pick (map_keys (Connections (Connection cfg1)))) = Some d \<and>
           cfg1 = cfgL\<lparr>Connection := (Connection cfgL)
                    \<lparr>Default := pick (map_keys (Connections (Connection cfg1)))\<rparr>\<rparr> \<and>
           dest1 = d \<and> service1 = pick (map_keys (Connections (Connection cfg1)))"
proof -
  from setNewDefaultConnection_success [OF s] obtain cfgL where
    loop: "setNewDefaultConnection_loop names cfg = (None, cfgL)" and
    conns: "Connections (Connection cfg1) = Connections (Connection cfgL)"
    by blast
  from left conns have keys: "map_keys (Connections (Connection cfgL)) \<noteq> []" by simp
  from range_first_okD [OF ok keys]
  have "map_lookup (Connections (Connection cfgL)) (pick (map_keys (Connections (Connection cfgL)))) \<noteq> None"
    by (simp only: map_lookup_iff_key)
  then obtain d where
    d: "map_lookup (Connections (Connection cfgL)) (pick (map_keys (Connections (Connection cfgL)))) = Some d"
    by auto
  from setNewDefaultConnection_some_left [OF loop keys, of pick dest service] d s conns loop
  show ?thesis by auto
qed

lemma connection_Remove_sample:
  "connection_RemoveConnections last Map.empty [''c''] (abc_store ''a'') = (None, ab_store ''b'')"
  by (simp add: abc_store_def ab_store_def store_of_def
      connection_RemoveConnections_def EditConnectionConfig_def setNewDefaultConnection_def
      zero_Destination_def map_lookup_def map_delete_def map_keys_def Let_def)

text \<open>
  What a successful \<open>connection.RemoveConnections\<close> leaves as the default when an entry
  remains: the entry the \<open>range\<close> over the remaining entries visits first, or, when that
  entry is a machine connection whose name \<open>machines\<close> maps to \<open>true\<close>, that name followed by
  \<open>-root\<close>. The outcome does not depend on what the default was before the call.
\<close>

lemma connection_RemoveConnections_default_after:
  assumes "range_first_ok pick"
      and "connection_RemoveConnections pick machines names st = (None, st')"
      and "map_keys (Connections (Connection (cs_content st'))) \<noteq> []"
  shows
   "(\<exists>d. map_lookup (Connections (Connection (cs_content st')))
            (pick (map_keys (Connections (Connection (cs_content st'))))) = Some d \<and>
         Default (Connection (cs_content st')) =
           (if IsMachine d \<and> machines (pick (map_keys (Connections (Connection (cs_content st'))))) = Some True
            then pick (map_keys (Connections (Connection (cs_content st')))) @ ''-root''
            else pick (map_keys (Connections (Connection (cs_content st')))))) \<and>
    (\<forall>d0. connection_RemoveConnections pick machines names
            (st\<lparr>cs_content := (cs_content st)\<lparr>Connection :=
                   (Connection (cs_content st))\<lparr>Default := d0\<rparr>\<rparr>\<rparr>) = (None, st'))"
proof -
  define final where "final = (\<lambda>(cfg1 :: ConnectionsFile) (dest :: Destination) service.
     case machines service of
       Some rootful \<Rightarrow>
         if IsMachine dest
         then UpdateConnectionIfDefault_callback rootful service (service @ ''-root'') cfg1
         else cfg1
     | None \<Rightarrow> cfg1)"
  from connection_Remove_success [OF assms(2)] obtain cfg1 dest service where
    r: "cs_read_err st = None" and w: "cs_write_err st = None" and
    s: "setNewDefaultConnection pick (cs_content st) zero_Destination '''' names
          = (None, cfg1, dest, service)" and
    st': "st' = st\<lparr>cs_content := final cfg1 dest service\<rparr>"
    unfolding final_def by blast
  have conns: "Connections (Connection (cs_content st')) = Connections (Connection cfg1)"
    by (simp add: st' final_def callback_Connections split: option.splits)
  with assms(3) have left: "map_keys (Connections (Connection cfg1)) \<noteq> []" by simp
  let ?con = "pick (map_keys (Connections (Connection cfg1)))"
  from setNewDefaultConnection_reassigns [OF assms(1) s left] obtain cfgL d where
    loop: "setNewDefaultConnection_loop names (cs_content st) = (None, cfgL)" and
    cL: "Connections (Connection cfgL) = Connections (Connection cfg1)" and
    d: "map_lookup (Connections (Connection cfg1)) ?con = Some d" and
    cfg1: "cfg1 = cfgL\<lparr>Connection := (Connection cfgL)\<lparr>Default := ?con\<rparr>\<rparr>" and
    dest: "dest = d" and service: "service = ?con"
    by blast
  have dflt1: "Default (Connection cfg1) = service"
    by (subst cfg1) (simp add: service)
  have "Default (Connection (final cfg1 dest service)) =
          (if IsMachine d \<and> machines ?con = Some True then ?con @ ''-root'' else ?con)"
    using callback_Default_of_service [OF dflt1] dflt1 dest service
    by (auto simp: final_def split: option.splits)
  with d conns st' have first:
    "\<exists>d. map_lookup (Connections (Connection (cs_content st')))
            (pick (map_keys (Connections (Connection (cs_content st'))))) = Some d \<and>
         Default (Connection (cs_content st')) =
           (if IsMachine d \<and> machines (pick (map_keys (Connections (Connection (cs_content st'))))) = Some True
            then pick (map_keys (Connections (Connection (cs_content st')))) @ ''-root''
            else pick (map_keys (Connections (Connection (cs_content st')))))"
    by simp
  have second: "connection_RemoveConnections pick machines names
            (st\<lparr>cs_content := (cs_content st)\<lparr>Connection :=
                   (Connection (cs_content st))\<lparr>Default := d0\<rparr>\<rparr>\<rparr>) = (None, st')" for d0
  proof -
    let ?cfg2 = "(cs_content st)\<lparr>Connection := (Connection (cs_content st))\<lparr>Default := d0\<rparr>\<rparr>"
    let ?st2 = "st\<lparr>cs_content := ?cfg2\<rparr>"
    have same: "Connections (Connection ?cfg2) = Connections (Connection (cs_content st))" by simp
    obtain e2 cfgL2 where loop2: "setNewDefaultConnection_loop names ?cfg2 = (e2, cfgL2)"
      by (cases "setNewDefaultConnection_loop names ?cfg2") auto
    from snd_loop_agree [OF same, of names] loop loop2
    have e2: "e2 = None" and cL2: "Connections (Connection cfgL2) = Connections (Connection cfgL)"
      by simp_all
    from cL2 cL left have keys2: "map_keys (Connections (Connection cfgL2)) \<noteq> []" by simp
    have eq: "cfgL2\<lparr>Connection := (Connection cfgL2)\<lparr>Default := ?con\<rparr>\<rparr> = cfg1"
    proof -
      have "(Connection cfgL2)\<lparr>Default := ?con\<rparr> = (Connection cfgL)\<lparr>Default := ?con\<rparr>"
        using cL2 by (rule ConnectionConfig_same_but_default)
      then show ?thesis
        by (subst cfg1) (simp add: ConnectionsFile_same_connection [where A = cfgL2 and B = cfgL])
    qed
    have s2: "setNewDefaultConnection pick ?cfg2 zero_Destination '''' names = (None, cfg1, dest, service)"
      using setNewDefaultConnection_some_left [OF loop2 [unfolded e2] keys2, of pick zero_Destination "''''"]
        cL2 cL d eq dest service
      by simp
    have "connection_RemoveConnections pick machines names ?st2 =
            (None, ?st2\<lparr>cs_content := final cfg1 dest service\<rparr>)"
      unfolding final_def
      by (rule connection_Remove_edits) (simp_all add: r w s2)
    then show ?thesis by (simp add: st')
  qed
  from first second show ?thesis by blast
qed

lemma connection_RemoveConnections_default_after_example:
  "connection_RemoveConnections last Map.empty [''c''] (abc_store ''a'') = (None, ab_store ''b'') \<and>
   Default (Connection (cs_content (abc_store ''a''))) = ''a'' \<and>
   Default (Connection (cs_content (ab_store ''b''))) = ''b'' \<and>
   map_keys (Connections (Connection (cs_content (ab_store ''b'')))) = [''a'', ''b''] \<and>
   connection_RemoveConnections last Map.empty [''c'']
     ((abc_store ''a'')\<lparr>cs_content := (cs_content (abc_store ''a''))\<lparr>Connection :=
        (Connection (cs_content (abc_store ''a'')))\<lparr>Default := ''c''\<rparr>\<rparr>\<rparr>) = (None, ab_store ''b'')"
proof -
  have k: "map_keys (Connections (Connection (cs_content (ab_store ''b'')))) = [''a'', ''b'']"
    by (simp add: ab_store_def store_of_def map_keys_def)
  then have ne: "map_keys (Connections (Connection (cs_content (ab_store ''b'')))) \<noteq> []"
    by simp
  have a: "Default (Connection (cs_content (abc_store ''a''))) = ''a''"
    by (simp add: abc_store_def store_of_def)
  have b: "Default (Connection (cs_content (ab_store ''b''))) = ''b''"
    by (simp add: ab_store_def store_of_def)
  from connection_RemoveConnections_default_after
         [OF range_first_ok_last connection_Remove_sample ne]
  have "connection_RemoveConnections last Map.empty [''c'']
     ((abc_store ''a'')\<lparr>cs_content := (cs_content (abc_store ''a''))\<lparr>Connection :=
        (Connection (cs_content (abc_store ''a'')))\<lparr>Default := ''c''\<rparr>\<rparr>\<rparr>) = (None, ab_store ''b'')"
    by blast
  with connection_Remove_sample a b k show ?thesis by simp
qed

text \<open>
  Where every remaining rootful machine connection has its \<open>-root\<close> counterpart among the
  entries, the default after the call is one of the remaining entries.
\<close>

lemma connection_RemoveConnections_default_is_entry_when_paired:
  assumes "range_first_ok pick"
      and "connection_RemoveConnections pick machines names st = (None, st')"
      and "map_keys (Connections (Connection (cs_content st'))) \<noteq> []"
      and "\<And>con d. map_lookup (Connections (Connection (cs_content st'))) con = Some d \<Longrightarrow>
             IsMachine d \<Longrightarrow> machines con = Some True \<Longrightarrow>
             con @ ''-root'' \<in> set (map_keys (Connections (Connection (cs_content st'))))"
  shows "Default (Connection (cs_content st')) \<in> set (map_keys (Connections (Connection (cs_content st'))))"
proof -
  let ?conns = "Connections (Connection (cs_content st'))"
  from connection_RemoveConnections_default_after [OF assms(1-3)] obtain d where
    d: "map_lookup ?conns (pick (map_keys ?conns)) = Some d" and
    dflt: "Default (Connection (cs_content st')) =
             (if IsMachine d \<and> machines (pick (map_keys ?conns)) = Some True
              then pick (map_keys ?conns) @ ''-root'' else pick (map_keys ?conns))"
    by blast
  show ?thesis
  proof (cases "IsMachine d \<and> machines (pick (map_keys ?conns)) = Some True")
    case True
    with assms(4) [OF d] dflt show ?thesis by simp
  next
    case False
    with dflt range_first_okD [OF assms(1,3)] show ?thesis by simp
  qed
qed

text \<open>
  C7. \<open>connection.RemoveConnections\<close> does not keep the default valid. The registry holds the
  machine connection \<open>box\<close> and the entry \<open>x\<close>, \<open>x\<close> is the default and \<open>machines\<close> lists
  \<open>box\<close> as rootful. Removing \<open>x\<close>, the default, succeeds; \<open>setNewDefaultConnection\<close> picks
  \<open>box\<close>, and the call then moves the default on to \<open>box-root\<close>, which is not an entry: the
  default was valid before the call and is not after it. Likewise on the registry with
  \<open>box\<close> and \<open>box-root\<close> and default \<open>box-root\<close>: removing \<open>box-root\<close> leaves the default
  at \<open>box-root\<close>, the name just removed.
\<close>

theorem connection_RemoveConnections_breaks_default_invariant:
  "connection_RemoveConnections hd [''box'' \<mapsto> True] [''x''] x_default_store =
     (None, store_of ''box-root''
        (Some [(''box'', machine_dest ''ssh://core@localhost:22/run/user/501/podman/podman.sock'')])) \<and>
   default_valid (Default (Connection (cs_content x_default_store)))
     (Connections (Connection (cs_content x_default_store))) \<and>
   \<not> default_valid ''box-root''
     (Some [(''box'', machine_dest ''ssh://core@localhost:22/run/user/501/podman/podman.sock'')]) \<and>
   connection_RemoveConnections hd [''box'' \<mapsto> True] [''box-root''] paired_box_store =
     (None, store_of ''box-root''
        (Some [(''box'', machine_dest ''ssh://core@localhost:22/run/user/501/podman/podman.sock'')]))"
  by (simp add: x_default_store_def paired_box_store_def store_of_def machine_dest_def plain_dest_def
      connection_RemoveConnections_def EditConnectionConfig_def setNewDefaultConnection_def
      UpdateConnectionIfDefault_def UpdateConnectionIfDefault_callback_def zero_Destination_def
      default_valid_def map_lookup_def map_delete_def map_keys_def Let_def)

text \<open>
  C9. The default after a successful \<open>connection.RemoveConnections\<close> is not always one of the
  remaining entries. The registry holds the machine connection \<open>box\<close>, which is the default
  and which \<open>machines\<close> lists as rootful, and the entry \<open>x\<close>. Removing \<open>x\<close>, which was not
  the default, succeeds and leaves \<open>box\<close>; the default is moved on to \<open>box-root\<close>, and the
  registry has no entry of that name.
\<close>

theorem connection_RemoveConnections_default_not_an_entry:
  "connection_RemoveConnections hd [''box'' \<mapsto> True] [''x''] rootful_box_store =
     (None, store_of ''box-root''
        (Some [(''box'', machine_dest ''ssh://core@localhost:22/run/user/501/podman/podman.sock'')])) \<and>
   map_keys (Some [(''box'', machine_dest ''ssh://core@localhost:22/run/user/501/podman/podman.sock'')])
     = [''box''] \<and>
   ''box-root'' \<notin> set [''box'']"
  by (simp add: rootful_box_store_def store_of_def machine_dest_def plain_dest_def
      connection_RemoveConnections_def EditConnectionConfig_def setNewDefaultConnection_def
      UpdateConnectionIfDefault_def UpdateConnectionIfDefault_callback_def zero_Destination_def
      map_lookup_def map_delete_def map_keys_def Let_def)

section \<open>The connection registry: the first entry\<close>

text \<open>
  C6. The first-entry rule rests on the test \<open>Connections == nil\<close>. On a registry whose
  map is allocated and empty, adding \<open>dev\<close> with \<open>isDefault = false\<close> succeeds and leaves the
  default empty, in \<open>addConnection\<close> and in \<open>machine.AddConnection\<close> alike; on a registry
  whose map is \<open>nil\<close> the same call makes \<open>dev\<close> the default.
\<close>

theorem AddConnection_to_allocated_empty_map:
  "addConnection [dev_connection] ''/ssh/id'' False (store_of '''' (Some [])) =
     (None, store_of '''' (Some [(''dev'', dev_dest)])) \<and>
   machine_AddConnection ''ssh://core@localhost:22/run/podman/podman.sock'' ''dev'' ''/ssh/id'' False
       (engine_file '''' (Some [])) =
     (None, engine_file '''' (Some [(''dev'', dev_dest)])) \<and>
   addConnection [dev_connection] ''/ssh/id'' False (store_of '''' None) =
     (None, store_of ''dev'' (Some [(''dev'', dev_dest)])) \<and>
   machine_AddConnection ''ssh://core@localhost:22/run/podman/podman.sock'' ''dev'' ''/ssh/id'' False
       (engine_file '''' None) =
     (None, engine_file ''dev'' (Some [(''dev'', dev_dest)]))"
  by (simp add: addConnection_def machine_AddConnection_def EditConnectionConfig_def
      ReadCustomConfig_def Config_Write_def omit_empty_def map_keys_def store_of_def
      engine_file_def dev_connection_def dev_dest_def map_lookup_def Let_def)

lemma addConnection_loop_later_keeps_default:
  "0 < i \<Longrightarrow> Connections (Connection cfg) \<noteq> None \<Longrightarrow>
   Default (Connection (snd (addConnection_loop identity isDefault i cons cfg))) =
     Default (Connection cfg)"
proof (induction cons arbitrary: i cfg)
  case Nil
  then show ?case by simp
next
  case (Cons con cons)
  from Cons.prems obtain al where al: "Connections (Connection cfg) = Some al" by auto
  show ?case
  proof (cases "map_lookup (Connections (Connection cfg)) (con_name con) \<noteq> None")
    case True
    then show ?thesis by simp
  next
    case False
    let ?cfg1 = "cfg\<lparr>Connection := (Connection cfg)\<lparr>Connections :=
                   Some (AList.update (con_name con)
                     \<lparr>URI = con_uri con, Identity = identity, IsMachine = True\<rparr> al)\<rparr>\<rparr>"
    from False al Cons.prems(1)
    have step: "addConnection_loop identity isDefault i (con # cons) cfg =
                addConnection_loop identity isDefault (Suc i) cons ?cfg1"
      by (simp add: Let_def)
    have "Default (Connection (snd (addConnection_loop identity isDefault (Suc i) cons ?cfg1))) =
            Default (Connection ?cfg1)"
      by (rule Cons.IH) simp_all
    with step show ?thesis by simp
  qed
qed

text \<open>
  On a \<open>nil\<close> map the first-entry rule holds in general: whatever \<open>isDefault\<close> says, a
  successful \<open>addConnection\<close> makes the first of the added connections the default.
\<close>

lemma addConnection_to_nil_map_first_is_default:
  assumes "Connections (Connection (cs_content st)) = None"
      and "addConnection (con # cons) identity isDefault st = (None, st')"
  shows "Default (Connection (cs_content st')) = con_name con"
proof -
  let ?cfg1 = "(cs_content st)\<lparr>Connection := (Connection (cs_content st))
      \<lparr>Connections := Some [(con_name con, \<lparr>URI = con_uri con, Identity = identity, IsMachine = True\<rparr>)],
       Default := con_name con\<rparr>\<rparr>"
  have step: "addConnection_loop identity isDefault 0 (con # cons) (cs_content st) =
              addConnection_loop identity isDefault (Suc 0) cons ?cfg1"
    using assms(1) by (simp add: Let_def map_lookup_def)
  have d: "Default (Connection (snd (addConnection_loop identity isDefault (Suc 0) cons ?cfg1))) =
             Default (Connection ?cfg1)"
    by (rule addConnection_loop_later_keeps_default) simp_all
  obtain e cfg' where r: "addConnection_loop identity isDefault 0 (con # cons) (cs_content st) = (e, cfg')"
    by (cases "addConnection_loop identity isDefault 0 (con # cons) (cs_content st)") auto
  from assms(2) r have "e = None \<and> st' = st\<lparr>cs_content := cfg'\<rparr>"
    by (auto simp: addConnection_def EditConnectionConfig_def split: if_splits option.splits)
  then have e: "e = None" and st': "st' = st\<lparr>cs_content := cfg'\<rparr>" by simp_all
  from r have r': "addConnection_loop identity isDefault (Suc 0) cons ?cfg1 = (e, cfg')"
    unfolding step .
  from d r' have "Default (Connection cfg') = con_name con" by simp
  with st' show ?thesis by simp
qed

lemma machine_AddConnection_to_nil_map_is_default:
  assumes "ServiceDestinations (Engine (cf_content cf)) = None"
      and "machine_AddConnection uri name identity isDefault cf = (None, cf')"
  shows "ActiveService (Engine (cf_content cf')) = name"
  using assms
  by (auto simp: machine_AddConnection_def ReadCustomConfig_def Config_Write_def map_lookup_def
      Let_def split: if_splits option.splits)

end
